theory Spec2Isabelle
  imports Main "HOL-Library.Char_ord" "HOL-Library.List_Lexorder"
begin

section \<open>Python values, exceptions and containers\<close>

text \<open>
  The notebooks are Python. A dictionary with string keys and string values is an
  association list read with \<open>map_of\<close>; an exception is a value of \<open>exn\<close>, and a
  computation that may raise returns \<open>exn + 'a\<close> with \<open>Inl\<close> for the raised exception.
\<close>

type_synonym dict = "(string \<times> string) list"

datatype exn =
    ClientError string
  | WaiterError string
  | IndexError
  | KeyError string
  | TypeError
  | NameError string
  | AttributeError string
  | RuntimeError string
  | OtherError string

text \<open>\<open>d.get(k)\<close>: the value, or None when the key is absent.\<close>

definition dict_get :: "dict \<Rightarrow> string \<Rightarrow> string option" where
  "dict_get d k = map_of d k"

text \<open>\<open>d[k]\<close>: raises KeyError when the key is absent.\<close>

definition dict_item :: "dict \<Rightarrow> string \<Rightarrow> exn + string" where
  "dict_item d k = (case map_of d k of None \<Rightarrow> Inl (KeyError k) | Some v \<Rightarrow> Inr v)"

text \<open>
  \<open>xs[i]\<close> for a list: a negative index counts from the end, and an index outside the
  list raises IndexError.
\<close>

definition list_item :: "'a list \<Rightarrow> int \<Rightarrow> exn + 'a" where
  "list_item xs i =
     (if 0 \<le> i then (if nat i < length xs then Inr (xs ! nat i) else Inl IndexError)
      else (if nat (- i) \<le> length xs then Inr (xs ! (length xs - nat (- i)))
            else Inl IndexError))"

section \<open>The remote service as the notebooks read it\<close>

text \<open>
  Modelled from the spec: the remote service is an external collaborator and not among
  the sources; section 6 of the specification gives it create and list operations for
  containers. Its state holds what the listing calls answer: the \<open>referenceStores\<close>
  entry of the store listing (\<open>None\<close> when the response carries no such key), the
  \<open>references\<close> entry of the first page of a store's reference listing and the pages
  after it, the sequence stores, the number of identifiers handed out so far, and the
  log of the calls received.
\<close>

datatype api_call =
    ListReferenceStores nat
  | CreateReferenceStore string
  | CreateSequenceStore string

record omics_service =
  ref_store_listing :: "dict list option"
  ref_first_page :: "string \<Rightarrow> dict list option"
  ref_later_pages :: "string \<Rightarrow> dict list list"
  seq_stores :: "dict list"
  minted :: nat
  calls :: "api_call list"

record stores_response =
  referenceStores :: "dict list option"

record references_response =
  references :: "dict list option"
  nextToken :: "string option"

definition reference_stores_response :: "omics_service \<Rightarrow> nat \<Rightarrow> stores_response" where
  "reference_stores_response s maxResults =
     \<lparr>referenceStores = map_option (take maxResults) (ref_store_listing s)\<rparr>"

definition references_response :: "omics_service \<Rightarrow> string \<Rightarrow> references_response" where
  "references_response s referenceStoreId =
     \<lparr>references = ref_first_page s referenceStoreId,
      nextToken = (if ref_later_pages s referenceStoreId = [] then None else Some ''page-2'')\<rparr>"

definition list_reference_stores ::
  "nat \<Rightarrow> omics_service \<Rightarrow> omics_service \<times> stores_response" where
  "list_reference_stores maxResults s =
     (s\<lparr>calls := calls s @ [ListReferenceStores maxResults]\<rparr>,
      reference_stores_response s maxResults)"

section \<open>Storage notebook: \<open>get_ref_store_id\<close>\<close>

text \<open>
  \<^verbatim>\<open>
  def get_ref_store_id(client=None):
      resp = client.list_reference_stores(maxResults=10)
      list_of_stores = resp.get('referenceStores')
      store_id = None
      if list_of_stores != None:
          store_id = list_of_stores[0].get('id')
      return store_id
  \<close>
  The client is the one every call site passes.
\<close>

definition get_ref_store_id :: "omics_service \<Rightarrow> omics_service \<times> (exn + string option)" where
  "get_ref_store_id client =
     (let (client', resp) = list_reference_stores 10 client;
          list_of_stores = referenceStores resp
      in case list_of_stores of
           None \<Rightarrow> (client', Inr None)
         | Some stores \<Rightarrow>
             (case list_item stores 0 of
                Inl e \<Rightarrow> (client', Inl e)
              | Inr store \<Rightarrow> (client', Inr (dict_get store ''id''))))"

section \<open>Analytics notebook: \<open>get_reference_arn\<close>\<close>

definition no_store_msg :: string where
  "no_store_msg = ''You have not created a reference store, please got to the Amazon Omics Storage tutorial to learn how to create one. Do note continue with this notebook''"

definition not_found_msg :: "string \<Rightarrow> string" where
  "not_found_msg ref_name = ''Could not find '' @ ref_name @ '', please got to the Amazon Omics Storage tutorial to learn how to import one. Do note continue with this notebook''"

text \<open>
  The loop over the listed references: a later match overwrites \<open>ref_arn\<close>;
  \<open>ref['name']\<close> and \<open>ref['arn']\<close> raise KeyError on a reference without the key.
\<close>

fun find_arn :: "string \<Rightarrow> dict list \<Rightarrow> string option \<Rightarrow> exn + string option" where
  "find_arn ref_name [] ref_arn = Inr ref_arn"
| "find_arn ref_name (ref # refs) ref_arn =
     (case dict_item ref ''name'' of
        Inl e \<Rightarrow> Inl e
      | Inr n \<Rightarrow>
          if n = ref_name then
            (case dict_item ref ''arn'' of
               Inl e \<Rightarrow> Inl e
             | Inr a \<Rightarrow> find_arn ref_name refs (Some a))
          else find_arn ref_name refs ref_arn)"

text \<open>
  \<^verbatim>\<open>
  def get_reference_arn(ref_name, client=None):
      resp = client.list_reference_stores(maxResults=10)
      ref_stores = resp.get('referenceStores')
      ref_store = ref_stores[0] if ref_stores else None
      if not ref_store:
          raise RuntimeError("You have not created a reference store, ...")
      ref_arn = None
      resp = omics.list_references(referenceStoreId=ref_store['id'])
      ref_list = resp.get('references')
      for ref in resp.get('references'):
          if ref['name'] == ref_name:
              ref_arn = ref['arn']
      if ref_arn == None:
          raise RuntimeError(f"Could not find {ref_name}, ...")
      return ref_arn
  \<close>
  The store listing is read through \<open>client\<close>, the reference listing through the
  notebook's global \<open>omics\<close>. An empty list and an empty dictionary are both false in
  Python; iterating over \<open>None\<close> raises TypeError. One listing call is made, with no
  continuation token.
\<close>

definition get_reference_arn :: "string \<Rightarrow> omics_service \<Rightarrow> omics_service \<Rightarrow> exn + string" where
  "get_reference_arn ref_name client omics =
     (let resp = reference_stores_response client 10;
          ref_stores = referenceStores resp;
          ref_store = (case ref_stores of
                         None \<Rightarrow> None
                       | Some [] \<Rightarrow> None
                       | Some (s # _) \<Rightarrow> Some s)
      in case ref_store of
           None \<Rightarrow> Inl (RuntimeError no_store_msg)
         | Some store \<Rightarrow>
             if store = [] then Inl (RuntimeError no_store_msg)
             else
               (case dict_item store ''id'' of
                  Inl e \<Rightarrow> Inl e
                | Inr sid \<Rightarrow>
                    (case references (references_response omics sid) of
                       None \<Rightarrow> Inl TypeError
                     | Some refs \<Rightarrow>
                         (case find_arn ref_name refs None of
                            Inl e \<Rightarrow> Inl e
                          | Inr None \<Rightarrow> Inl (RuntimeError (not_found_msg ref_name))
                          | Inr (Some a) \<Rightarrow> Inr a))))"


text \<open>What the claims about the two lookups speak of.\<close>

definition listed_stores :: "omics_service \<Rightarrow> dict list" where
  "listed_stores s = (case ref_store_listing s of None \<Rightarrow> [] | Some stores \<Rightarrow> stores)"

definition matches :: "string \<Rightarrow> dict list \<Rightarrow> dict list" where
  "matches ref_name refs = filter (\<lambda>r. dict_get r ''name'' = Some ref_name) refs"

definition first_store_id :: "omics_service \<Rightarrow> string option" where
  "first_store_id s = (case listed_stores s of [] \<Rightarrow> None | store # _ \<Rightarrow> dict_get store ''id'')"

definition first_page_matches :: "string \<Rightarrow> omics_service \<Rightarrow> omics_service \<Rightarrow> dict list" where
  "first_page_matches ref_name client omics =
     (case first_store_id client of
        None \<Rightarrow> []
      | Some sid \<Rightarrow>
          (case ref_first_page omics sid of None \<Rightarrow> [] | Some refs \<Rightarrow> matches ref_name refs))"

text \<open>
  A listing as the service sends it: every store carries its \<open>id\<close>, the reference
  listing carries its \<open>references\<close> entry, and every reference its \<open>name\<close> and \<open>arn\<close>.
\<close>

definition stores_have_ids :: "omics_service \<Rightarrow> bool" where
  "stores_have_ids s = list_all (\<lambda>store. dict_get store ''id'' \<noteq> None) (listed_stores s)"

definition well_formed_refs :: "dict list option \<Rightarrow> bool" where
  "well_formed_refs page =
     (case page of
        None \<Rightarrow> False
      | Some refs \<Rightarrow>
          list_all (\<lambda>r. dict_get r ''name'' \<noteq> None \<and> dict_get r ''arn'' \<noteq> None) refs)"

definition first_page_well_formed :: "omics_service \<Rightarrow> omics_service \<Rightarrow> bool" where
  "first_page_well_formed client omics =
     (case first_store_id client of
        None \<Rightarrow> True
      | Some sid \<Rightarrow> well_formed_refs (ref_first_page omics sid))"

section \<open>Both notebooks: the IAM role\<close>

text \<open>
  The IAM service, which is not among the sources, is a parameter: it answers each call
  with its result or with the exception it raises.
  \<open>load_role\<close> is \<open>iam.Role(name).load()\<close> followed by reading \<open>role.arn\<close>; a
  \<open>ClientError\<close> carries the code found at \<open>ex.response["Error"]["Code"]\<close>.
\<close>

record iam_service =
  load_role :: "string \<Rightarrow> exn + string"
  create_role :: "string \<Rightarrow> exn + unit"
  create_policy :: "string \<Rightarrow> exn + unit"
  attach_role :: "string \<Rightarrow> exn + unit"

datatype message =
    Line string
  | Response dict
  | Printed exn
  | Importing nat string
  | JobStarted nat nat string string

definition is_client_error :: "exn \<Rightarrow> bool" where
  "is_client_error ex = (case ex of ClientError _ \<Rightarrow> True | _ \<Rightarrow> False)"




text \<open>
  The expression of an \<open>except\<close> clause is evaluated only once the body has raised, and
  an exception raised by that evaluation replaces the one being handled. A module is
  the list of its attribute names, the notebook's globals the list of the names it
  binds.
\<close>

type_synonym namespace = "string list"

definition module_attr :: "namespace \<Rightarrow> string \<Rightarrow> exn + unit" where
  "module_attr attrs name = (if name \<in> set attrs then Inr () else Inl (AttributeError name))"

definition global_name :: "namespace \<Rightarrow> string \<Rightarrow> exn + unit" where
  "global_name globals name = (if name \<in> set globals then Inr () else Inl (NameError name))"

definition couldnt_get_role :: "string \<Rightarrow> string" where
  "couldnt_get_role role_name = ''Couldn't get role named '' @ role_name @ ''.''"

text \<open>
  Storage notebook:
  \<^verbatim>\<open>
  def get_role_arn(role_name):
      try:
          iam = boto3.resource('iam')
          role = iam.Role(role_name)
          role.load()  # calls GetRole to load attributes
      except botocore.exeptions.ClientError:
          print("Couldn't get role named %s."%role_name)
          raise
      else:
          return role.arn
  \<close>
  \<open>botocore\<close> is the list of the attributes of the module \<open>botocore\<close>, which the
  notebook imports with \<open>import botocore.exceptions\<close>.
\<close>

definition get_role_arn_storage ::
  "namespace \<Rightarrow> iam_service \<Rightarrow> string \<Rightarrow> message list \<times> (exn + string)" where
  "get_role_arn_storage botocore iam role_name =
     (case load_role iam role_name of
        Inr arn \<Rightarrow> ([], Inr arn)
      | Inl ex \<Rightarrow>
          (case module_attr botocore ''exeptions'' of
             Inl e \<Rightarrow> ([], Inl e)
           | Inr _ \<Rightarrow>
               if is_client_error ex then ([Line (couldnt_get_role role_name)], Inl ex)
               else ([], Inl ex)))"

text \<open>
  The names the analytics notebook binds at top level, in the order of its cells: its
  imports (\<open>from datetime import datetime\<close>, \<open>import json\<close>, \<open>import os\<close>,
  \<open>import time\<close>, \<open>import urllib\<close>, \<open>import boto3\<close>, \<open>import botocore.exceptions\<close>,
  later \<open>import awswrangler as wr\<close>), its assignments and its two functions. Python's
  builtins hold no \<open>ClientError\<close>.
\<close>

definition analytics_globals :: namespace where
  "analytics_globals =
     [''datetime'', ''json'', ''os'', ''time'', ''urllib'', ''boto3'', ''botocore'',
      ''dt_fmt'', ''ts'', ''demo_policy'', ''demo_trust_policy'', ''omics_iam_name'',
      ''iam'', ''role'', ''policy'', ''get_role_arn'', ''omics'', ''get_reference_arn'',
      ''SOURCE_VARIANT_URI'', ''source'', ''bucket'', ''prefix'', ''s3r'', ''objects'',
      ''ext'', ''vcf_list'', ''var_store_name'', ''ref_name'', ''response'', ''var_store'',
      ''waiter'', ''N_TOTAL_JOBS'', ''i'', ''uri'', ''ram'', ''glue'', ''caller_identity'',
      ''AWS_ACCOUNT_ID'', ''AWS_IDENITY_ARN'', ''variantstore_resources'',
      ''variantstore_resource'', ''resource_share'', ''athena'', ''athena_workgroups'',
      ''athena_workgroup'', ''wg'', ''titv_query'', ''wr'', ''df_titv'',
      ''SOURCE_ANNOTATION_URI'', ''ann_store_name'', ''ann_store'',
      ''annotationstore_resources'', ''annotationstore_resource'', ''ncsclc_query'',
      ''df_nsclc'']"

text \<open>
  Analytics notebook: the same function, with \<open>except ClientError:\<close> as its handler.
\<close>

definition get_role_arn_analytics ::
  "iam_service \<Rightarrow> string \<Rightarrow> message list \<times> (exn + string)" where
  "get_role_arn_analytics iam role_name =
     (case load_role iam role_name of
        Inr arn \<Rightarrow> ([], Inr arn)
      | Inl ex \<Rightarrow>
          (case global_name analytics_globals ''ClientError'' of
             Inl e \<Rightarrow> ([], Inl e)
           | Inr _ \<Rightarrow>
               if is_client_error ex then ([Line (couldnt_get_role role_name)], Inl ex)
               else ([], Inl ex)))"



section \<open>Storage notebook: creating the stores\<close>







section \<open>Storage notebook: import manifests\<close>

text \<open>\<open>s.split(sep)\<close> for a one-character separator: the empty string gives \<open>['']\<close>.\<close>

fun split_on :: "char \<Rightarrow> string \<Rightarrow> string list" where
  "split_on sep [] = [[]]"
| "split_on sep (c # cs) =
     (if c = sep then [] # split_on sep cs
      else (case split_on sep cs of
              [] \<Rightarrow> [[c]]
            | w # ws \<Rightarrow> (c # w) # ws))"

text \<open>
  \<open>urllib.parse.urlparse\<close> belongs to the standard library; the manifest cells take it
  as a function from a locator to the two components they read.
\<close>

record parse_result =
  netloc :: string
  path :: string

text \<open>\<open>source.path[1:].split('/')\<close>\<close>

definition path_segments :: "parse_result \<Rightarrow> string list" where
  "path_segments source = split_on (CHR ''/'') (drop 1 (path source))"

text \<open>
  An import source; \<open>sourceFiles\<close> is \<open>{'source1': ...}\<close> or
  \<open>{'source1': ..., 'source2': ...}\<close>.
\<close>

record read_set_source =
  subjectId :: string
  sampleId :: string
  sourceFileType :: string
  source1 :: string
  source2 :: "string option"
  referenceArn :: string
  generatedFrom :: string
  description :: string
  tags :: dict

text \<open>
  \<^verbatim>\<open>
  cram_sources = []
  for source_uri in SOURCE_S3_URIS['reads']['cram']:
      source = urllib.parse.urlparse(source_uri)
      subject_id = source.path[1:].split('/')[-2]  # accession, e.g. ERR1234567
      sample_id = source.path[1:].split('/')[-1].split('.')[0] # basename of object, e.g. HG12345
      cram_sources += [{
          'subjectId': subject_id,
          'sampleId': sample_id,
          'sourceFileType': 'CRAM',
          'sourceFiles': { 'source1': source_uri },
          'referenceArn': ref['arn'],  # we stashed this earlier
          'generatedFrom': source_uri,
          'description': f'{subject_id}/{sample_id} from {source.netloc}',
          'tags': {'SourceLocation': source.netloc}
      }]
  \<close>
\<close>

definition cram_source ::
  "(string \<Rightarrow> parse_result) \<Rightarrow> dict \<Rightarrow> string \<Rightarrow> exn + read_set_source" where
  "cram_source urlparse ref source_uri =
     (let source = urlparse source_uri in
      case list_item (path_segments source) (- 2) of
        Inl e \<Rightarrow> Inl e
      | Inr subject_id \<Rightarrow>
          (case list_item (path_segments source) (- 1) of
             Inl e \<Rightarrow> Inl e
           | Inr basename \<Rightarrow>
               (case list_item (split_on (CHR ''.'') basename) 0 of
                  Inl e \<Rightarrow> Inl e
                | Inr sample_id \<Rightarrow>
                    (case dict_item ref ''arn'' of
                       Inl e \<Rightarrow> Inl e
                     | Inr arn \<Rightarrow>
                         Inr \<lparr>subjectId = subject_id,
                              sampleId = sample_id,
                              sourceFileType = ''CRAM'',
                              source1 = source_uri,
                              source2 = None,
                              referenceArn = arn,
                              generatedFrom = source_uri,
                              description =
                                subject_id @ ''/'' @ sample_id @ '' from '' @ netloc source,
                              tags = [(''SourceLocation'', netloc source)]\<rparr>))))"

fun cram_sources ::
  "(string \<Rightarrow> parse_result) \<Rightarrow> dict \<Rightarrow> string list \<Rightarrow> exn + read_set_source list" where
  "cram_sources urlparse ref [] = Inr []"
| "cram_sources urlparse ref (source_uri # rest) =
     (case cram_source urlparse ref source_uri of
        Inl e \<Rightarrow> Inl e
      | Inr d \<Rightarrow>
          (case cram_sources urlparse ref rest of
             Inl e \<Rightarrow> Inl e
           | Inr ds \<Rightarrow> Inr (d # ds)))"

text \<open>
  \<^verbatim>\<open>
  # the set of source URIs is evenly matched with two reads {R1, R2} and for parts each
  # so we can just sort and divide the list into two to get matched lists of paired reads
  source_uris = zip(
      sorted(SOURCE_S3_URIS['reads']['fastq'])[:len(SOURCE_S3_URIS['reads']['fastq'])//2],
      sorted(SOURCE_S3_URIS['reads']['fastq'])[len(SOURCE_S3_URIS['reads']['fastq'])//2:]
  )
  \<close>
  Strings sort in lexicographic order of their characters; \<open>zip\<close> stops with the
  shorter list.
\<close>

definition pair_reads :: "string list \<Rightarrow> (string \<times> string) list" where
  "pair_reads fastq =
     zip (take (length fastq div 2) (sort fastq)) (drop (length fastq div 2) (sort fastq))"

text \<open>
  \<^verbatim>\<open>
  fastq_sources = []
  for reads in source_uris:
      source = urllib.parse.urlparse(reads[0])
      subject_id = source.path[1:].split('/')[1]  # NA12878
      sample_id = source.path[1:].split('/')[5]  # Sample_U0a
      fastq_sources += [{
          'subjectId': subject_id,
          'sampleId': sample_id,
          'sourceFileType': 'FASTQ',
          'sourceFiles': { 'source1': reads[0], 'source2': reads[1] },
          'referenceArn': ref['arn'],  # we stashed this earlier
          'generatedFrom': f'{subject_id}/{sample_id} fastq',
          'description': f'{subject_id}/{sample_id} from {source.netloc}',
          'tags': {'SourceLocation': source.netloc}
      }]
  \<close>
\<close>

definition fastq_source ::
  "(string \<Rightarrow> parse_result) \<Rightarrow> dict \<Rightarrow> string \<times> string \<Rightarrow> exn + read_set_source" where
  "fastq_source urlparse ref reads =
     (let source = urlparse (fst reads) in
      case list_item (path_segments source) 1 of
        Inl e \<Rightarrow> Inl e
      | Inr subject_id \<Rightarrow>
          (case list_item (path_segments source) 5 of
             Inl e \<Rightarrow> Inl e
           | Inr sample_id \<Rightarrow>
               (case dict_item ref ''arn'' of
                  Inl e \<Rightarrow> Inl e
                | Inr arn \<Rightarrow>
                    Inr \<lparr>subjectId = subject_id,
                         sampleId = sample_id,
                         sourceFileType = ''FASTQ'',
                         source1 = fst reads,
                         source2 = Some (snd reads),
                         referenceArn = arn,
                         generatedFrom = subject_id @ ''/'' @ sample_id @ '' fastq'',
                         description =
                           subject_id @ ''/'' @ sample_id @ '' from '' @ netloc source,
                         tags = [(''SourceLocation'', netloc source)]\<rparr>)))"

fun fastq_pairs_sources ::
  "(string \<Rightarrow> parse_result) \<Rightarrow> dict \<Rightarrow> (string \<times> string) list \<Rightarrow>
   exn + read_set_source list" where
  "fastq_pairs_sources urlparse ref [] = Inr []"
| "fastq_pairs_sources urlparse ref (reads # rest) =
     (case fastq_source urlparse ref reads of
        Inl e \<Rightarrow> Inl e
      | Inr d \<Rightarrow>
          (case fastq_pairs_sources urlparse ref rest of
             Inl e \<Rightarrow> Inl e
           | Inr ds \<Rightarrow> Inr (d # ds)))"

definition fastq_sources ::
  "(string \<Rightarrow> parse_result) \<Rightarrow> dict \<Rightarrow> string list \<Rightarrow> exn + read_set_source list" where
  "fastq_sources urlparse ref fastq = fastq_pairs_sources urlparse ref (pair_reads fastq)"

text \<open>
  A parser to instantiate \<open>urlparse\<close> with, written after the library's \<open>urlsplit\<close>:
  a scheme is a letter followed by letters, digits, \<open>+\<close>, \<open>-\<close> or \<open>.\<close> up to the
  first colon, and is cut off; after \<open>//\<close> the network location runs up to the first
  \<open>/\<close>, \<open>?\<close> or \<open>#\<close>; the path is what follows, up to the first \<open>#\<close> or
  \<open>?\<close>. The library also strips surrounding blanks and control characters and rejects
  some bracketed hosts with ValueError; this parser does neither, and is used only on
  locators that have none of these.
\<close>

definition scheme_letters :: string where
  "scheme_letters = ''abcdefghijklmnopqrstuvwxyzABCDEFGHIJKLMNOPQRSTUVWXYZ''"

definition scheme_chars :: string where
  "scheme_chars = scheme_letters @ ''0123456789+-.''"

definition after_scheme :: "string \<Rightarrow> string" where
  "after_scheme url =
     (let candidate = takeWhile (\<lambda>c. c \<noteq> CHR '':'') url
      in if candidate \<noteq> [] \<and> length candidate < length url
            \<and> hd candidate \<in> set scheme_letters \<and> list_all (\<lambda>c. c \<in> set scheme_chars) candidate
         then drop (Suc (length candidate)) url
         else url)"

definition s3_urlparse :: "string \<Rightarrow> parse_result" where
  "s3_urlparse url =
     (let rest = after_scheme url;
          delimiter = (\<lambda>c. c = CHR ''/'' \<or> c = CHR ''?'' \<or> c = CHR ''#'');
          location = (if take 2 rest = ''//'' then takeWhile (\<lambda>c. \<not> delimiter c) (drop 2 rest)
                      else []);
          tail = (if take 2 rest = ''//'' then dropWhile (\<lambda>c. \<not> delimiter c) (drop 2 rest)
                  else rest);
          no_fragment = takeWhile (\<lambda>c. c \<noteq> CHR ''#'') tail
      in \<lparr>netloc = location, path = takeWhile (\<lambda>c. c \<noteq> CHR ''?'') no_fragment\<rparr>)"

section \<open>Submitting import jobs\<close>

text \<open>
  The service, which is not among the sources, is a parameter: the answer it makes to
  a request. Each cell yields the requests it sent, in order, what it printed, and how
  it ended.
\<close>

record read_set_import_request =
  roleArn :: string
  sequenceStoreId :: string
  sources :: "read_set_source list"

text \<open>
  Storage notebook:
  \<^verbatim>\<open>
  import_sources = fastq_sources + cram_sources
  ...
  readset_import_job = omics.start_read_set_import_job(
      roleArn=get_role_arn(omics_iam_name),
      sequenceStoreId=seqstore['id'],
      sources=import_sources)
  \<close>
\<close>

definition start_read_set_import ::
  "namespace \<Rightarrow> iam_service \<Rightarrow> string \<Rightarrow> (read_set_import_request \<Rightarrow> exn + dict) \<Rightarrow> dict \<Rightarrow>
   read_set_source list \<Rightarrow> read_set_source list \<Rightarrow>
   read_set_import_request list \<times> message list \<times> (exn + dict)" where
  "start_read_set_import botocore iam omics_iam_name start_job seqstore fastq cram =
     (let import_sources = fastq @ cram in
      case get_role_arn_storage botocore iam omics_iam_name of
        (printed, Inl e) \<Rightarrow> ([], printed, Inl e)
      | (printed, Inr arn) \<Rightarrow>
          (case dict_item seqstore ''id'' of
             Inl e \<Rightarrow> ([], printed, Inl e)
           | Inr sid \<Rightarrow>
               (let request = \<lparr>roleArn = arn, sequenceStoreId = sid, sources = import_sources\<rparr>
                in ([request], printed, start_job request))))"

record variant_import_request =
  destinationName :: string
  variant_roleArn :: string
  items :: "string list"

text \<open>
  Analytics notebook:
  \<^verbatim>\<open>
  N_TOTAL_JOBS = len(vcf_list)

  print(f"importing {N_TOTAL_JOBS} items into {var_store['name']} ...")
  for i, uri in enumerate(vcf_list):
      response = omics.start_variant_import_job(
          destinationName=var_store['name'],
          roleArn=get_role_arn(omics_iam_name),
          items=[{"source": uri}]
      )
      print(f"[job {i+1} of {N_TOTAL_JOBS}] started import job {response['jobId']} for: {uri}")
  \<close>
  An item is its \<open>source\<close>.
\<close>

fun variant_import_loop ::
  "iam_service \<Rightarrow> string \<Rightarrow> (variant_import_request \<Rightarrow> exn + dict) \<Rightarrow> dict \<Rightarrow> nat \<Rightarrow> nat \<Rightarrow>
   string list \<Rightarrow> variant_import_request list \<times> message list \<times> (exn + unit)" where
  "variant_import_loop iam omics_iam_name start_job var_store n_total i [] = ([], [], Inr ())"
| "variant_import_loop iam omics_iam_name start_job var_store n_total i (uri # rest) =
     (case dict_item var_store ''name'' of
        Inl e \<Rightarrow> ([], [], Inl e)
      | Inr name \<Rightarrow>
          (case get_role_arn_analytics iam omics_iam_name of
             (printed, Inl e) \<Rightarrow> ([], printed, Inl e)
           | (printed, Inr arn) \<Rightarrow>
               (let request = \<lparr>destinationName = name, variant_roleArn = arn, items = [uri]\<rparr>
                in case start_job request of
                     Inl e \<Rightarrow> ([request], printed, Inl e)
                   | Inr response \<Rightarrow>
                       (case dict_item response ''jobId'' of
                          Inl e \<Rightarrow> ([request], printed, Inl e)
                        | Inr job_id \<Rightarrow>
                            (case variant_import_loop iam omics_iam_name start_job var_store
                                    n_total (Suc i) rest of
                               (requests, later, r) \<Rightarrow>
                                 (request # requests,
                                  printed @ JobStarted (i + 1) n_total job_id uri # later,
                                  r))))))"

definition import_variants ::
  "iam_service \<Rightarrow> string \<Rightarrow> (variant_import_request \<Rightarrow> exn + dict) \<Rightarrow> dict \<Rightarrow> string list \<Rightarrow>
   variant_import_request list \<times> message list \<times> (exn + unit)" where
  "import_variants iam omics_iam_name start_job var_store vcf_list =
     (let n_total = length vcf_list in
      case dict_item var_store ''name'' of
        Inl e \<Rightarrow> ([], [], Inl e)
      | Inr name \<Rightarrow>
          (case variant_import_loop iam omics_iam_name start_job var_store n_total 0 vcf_list of
             (requests, printed, r) \<Rightarrow> (requests, Importing n_total name # printed, r)))"

section \<open>Storage notebook: downloading parts\<close>

text \<open>
  Modelled from the spec: the service's side of a part request, which the sources do
  not hold (section 3, Transfer Object: named channels, parts numbered from 1 and
  contiguous; section 6: a retrieval operation taking a channel name and a part number
  and returning that part's bytes). A request for a part is logged. The service may
  have a fault scheduled for it: the request itself fails, or the payload it returns
  fails when read. A request for a part that does not exist fails.
\<close>

datatype channel = SOURCE | INDEX | SOURCE1 | SOURCE2

type_synonym bytes = string

datatype fault = RequestFails exn | ReadFails exn

record transfer_object =
  parts :: "channel \<Rightarrow> bytes list"
  faults :: "fault option list"
  requested :: "(channel \<times> nat) list"

text \<open>What \<open>response['payload'].read()\<close> gives.\<close>

type_synonym payload = "exn + bytes"

definition get_part ::
  "channel \<Rightarrow> nat \<Rightarrow> transfer_object \<Rightarrow> transfer_object \<times> (exn + payload)" where
  "get_part file partNumber obj =
     (let obj' = obj\<lparr>faults := drop 1 (faults obj),
                     requested := requested obj @ [(file, partNumber)]\<rparr>
      in case faults obj of
           Some (RequestFails e) # _ \<Rightarrow> (obj', Inl e)
         | scheduled \<Rightarrow>
             if 1 \<le> partNumber \<and> partNumber \<le> length (parts obj file)
             then (case scheduled of
                     Some (ReadFails e) # _ \<Rightarrow> (obj', Inr (Inl e))
                   | _ \<Rightarrow> (obj', Inr (Inr (parts obj file ! (partNumber - 1)))))
             else (obj', Inl (ClientError ''RangeNotSatisfiableException'')))"

type_synonym filesystem = "string \<rightharpoonup> bytes"

text \<open>
  \<open>with open(name, 'wb') as f: f.write(response['payload'].read())\<close>: opening creates
  the file or empties it, so a read that raises leaves it empty.
\<close>

definition save_payload :: "string \<Rightarrow> payload \<Rightarrow> filesystem \<Rightarrow> filesystem \<times> (exn + unit)" where
  "save_payload name payload fs =
     (case payload of
        Inl e \<Rightarrow> (fs(name \<mapsto> []), Inl e)
      | Inr content \<Rightarrow> (fs(name \<mapsto> content), Inr ()))"

text \<open>
  \<^verbatim>\<open>
  # download a part of the reference
  response = omics.get_reference(referenceStoreId=ref['referenceStoreId'], id=ref['id'], partNumber=1, file='SOURCE')
  with open('reference.part.fa', 'wb') as f:
      f.write(response['payload'].read())

  # download a part of the reference index
  response = omics.get_reference(referenceStoreId=ref['referenceStoreId'], id=ref['id'], partNumber=1, file='INDEX')
  with open('reference.part.fai', 'wb') as f:
      f.write(response['payload'].read())
  \<close>
\<close>

definition download_reference_parts ::
  "transfer_object \<Rightarrow> filesystem \<Rightarrow> transfer_object \<times> filesystem \<times> (exn + unit)" where
  "download_reference_parts reference fs =
     (case get_part SOURCE 1 reference of
        (reference', Inl e) \<Rightarrow> (reference', fs, Inl e)
      | (reference', Inr payload) \<Rightarrow>
          (case save_payload ''reference.part.fa'' payload fs of
             (fs', Inl e) \<Rightarrow> (reference', fs', Inl e)
           | (fs', Inr _) \<Rightarrow>
               (case get_part INDEX 1 reference' of
                  (reference'', Inl e) \<Rightarrow> (reference'', fs', Inl e)
                | (reference'', Inr index_payload) \<Rightarrow>
                    (case save_payload ''reference.part.fai'' index_payload fs' of
                       (fs'', r) \<Rightarrow> (reference'', fs'', r)))))"

text \<open>\<open>str.lower()\<close> on ASCII letters.\<close>

definition lower :: "string \<Rightarrow> string" where
  "lower s =
     map (\<lambda>c. case map_of (zip ''ABCDEFGHIJKLMNOPQRSTUVWXYZ'' ''abcdefghijklmnopqrstuvwxyz'') c of
                None \<Rightarrow> c
              | Some l \<Rightarrow> l) s"

text \<open>
  \<^verbatim>\<open>
  # download a part of the readset
  response = omics.get_read_set(sequenceStoreId=readset['sequenceStoreId'], id=readset['id'], partNumber=1, file='SOURCE1')
  with open(f"reads1.part.{readset_metadata['fileType'].lower()}", 'wb') as f:
      f.write(response['payload'].read())
  \<close>
\<close>

definition download_read_set_part ::
  "dict \<Rightarrow> transfer_object \<Rightarrow> filesystem \<Rightarrow> transfer_object \<times> filesystem \<times> (exn + unit)" where
  "download_read_set_part readset_metadata readset fs =
     (case get_part SOURCE1 1 readset of
        (readset', Inl e) \<Rightarrow> (readset', fs, Inl e)
      | (readset', Inr payload) \<Rightarrow>
          (case dict_item readset_metadata ''fileType'' of
             Inl e \<Rightarrow> (readset', fs, Inl e)
           | Inr file_type \<Rightarrow>
               (case save_payload (''reads1.part.'' @ lower file_type) payload fs of
                  (fs', r) \<Rightarrow> (readset', fs', r))))"

section \<open>Waiting for a job\<close>

text \<open>
  Modelled from the spec: the polling loop behind \<open>waiter.wait\<close> is the client
  library's and is not among the sources, which hold only the cells that call it. What
  follows is section 4.4 of the specification: the job's status is one of Submitted,
  InProgress, Completed, Failed, Cancelled, the last three terminal;
  \<open>wait(job_handle, poll_interval, max_attempts)\<close> polls on a fixed interval, exits
  normally on reaching any terminal state, returning that state, and fails with
  WaitTimeout after \<open>max_attempts\<close> polls without reaching a terminal state, the job
  itself being left running. Transport errors and cancellation of the wait are not
  modelled.
\<close>

datatype job_status = Submitted | InProgress | Completed | Failed | Cancelled

definition terminal :: "job_status \<Rightarrow> bool" where
  "terminal st = (st = Completed \<or> st = Failed \<or> st = Cancelled)"

datatype wait_result = Terminal job_status | WaitTimeout

text \<open>
  The remote job: the status it reports at its k-th status request, the number of
  status requests served, and the number of cancellation requests received.
\<close>

record remote_job =
  timeline :: "nat \<Rightarrow> job_status"
  polled :: nat
  cancel_requests :: nat

definition poll_status :: "remote_job \<Rightarrow> remote_job \<times> job_status" where
  "poll_status job = (job\<lparr>polled := Suc (polled job)\<rparr>, timeline job (polled job))"

fun wait_loop :: "nat \<Rightarrow> nat \<Rightarrow> remote_job \<Rightarrow> nat \<Rightarrow> remote_job \<times> nat \<times> wait_result" where
  "wait_loop poll_interval 0 job slept = (job, slept, WaitTimeout)"
| "wait_loop poll_interval (Suc remaining) job slept =
     (case poll_status job of
        (job', status) \<Rightarrow>
          if terminal status then (job', slept, Terminal status)
          else wait_loop poll_interval remaining job' (slept + poll_interval))"

definition wait :: "remote_job \<Rightarrow> nat \<Rightarrow> nat \<Rightarrow> remote_job \<times> nat \<times> wait_result" where
  "wait job_handle poll_interval max_attempts = wait_loop poll_interval max_attempts job_handle 0"

section \<open>Notions the properties are stated with\<close>

text \<open>The number of batches of at most \<open>b\<close> that \<open>l\<close> items need.\<close>

definition ceil_div :: "nat \<Rightarrow> nat \<Rightarrow> nat" where
  "ceil_div l b = (l + b - 1) div b"

text \<open>
  The positions the CRAM cell reads, on the segments of a path with at least two of
  them: the segment before the last, and the last one up to its first dot.
\<close>

definition cram_subject :: "string list \<Rightarrow> string" where
  "cram_subject segments = segments ! (length segments - 2)"

definition cram_sample :: "string list \<Rightarrow> string" where
  "cram_sample segments = hd (split_on (CHR ''.'') (last segments))"

text \<open>The service has no fault scheduled for the next \<open>n\<close> requests.\<close>

definition no_fault_ahead :: "nat \<Rightarrow> transfer_object \<Rightarrow> bool" where
  "no_fault_ahead n obj = list_all (\<lambda>f. f = None) (take n (faults obj))"

text \<open>
  How an iteration of the loop over the variant files ends on its request: with the
  exception of the call, with the KeyError of a response without \<open>jobId\<close>, or with the
  job identifier.
\<close>

definition submission_result ::
  "(variant_import_request \<Rightarrow> exn + dict) \<Rightarrow> variant_import_request \<Rightarrow> exn + string" where
  "submission_result start_job request =
     (case start_job request of
        Inl e \<Rightarrow> Inl e
      | Inr response \<Rightarrow> dict_item response ''jobId'')"

section \<open>Concrete services and inputs\<close>

text \<open>The inputs at which the theorems below are instantiated.\<close>

definition empty_service :: omics_service where
  "empty_service =
     \<lparr>ref_store_listing = Some [], ref_first_page = (\<lambda>_. None), ref_later_pages = (\<lambda>_. []),
      seq_stores = [], minted = 0, calls = []\<rparr>"

definition grch38_service :: omics_service where
  "grch38_service =
     \<lparr>ref_store_listing = Some [[(''id'', ''1234''), (''name'', ''myReferenceStore'')]],
      ref_first_page = (\<lambda>sid. if sid = ''1234''
         then Some [[(''name'', ''GRCh38''), (''arn'', ''arn:ref/1'')],
                    [(''name'', ''hg19''), (''arn'', ''arn:ref/2'')],
                    [(''name'', ''GRCh38''), (''arn'', ''arn:ref/3'')]]
         else None),
      ref_later_pages = (\<lambda>_. [[[(''name'', ''T2T''), (''arn'', ''arn:ref/4'')]]]),
      seq_stores = [], minted = 0, calls = []\<rparr>"

definition denying_iam :: iam_service where
  "denying_iam =
     \<lparr>load_role = (\<lambda>_. Inl (ClientError ''AccessDenied'')),
      create_role = (\<lambda>_. Inr ()), create_policy = (\<lambda>_. Inr ()), attach_role = (\<lambda>_. Inr ())\<rparr>"



definition granting_iam :: iam_service where
  "granting_iam =
     \<lparr>load_role = (\<lambda>name. Inr (''arn:aws:iam::role/'' @ name)),
      create_role = (\<lambda>_. Inr ()), create_policy = (\<lambda>_. Inr ()), attach_role = (\<lambda>_. Inr ())\<rparr>"

definition stashed_ref :: dict where
  "stashed_ref = [(''arn'', ''arn:ref/1''), (''id'', ''55'')]"

definition three_fastq :: "string list" where
  "three_fastq = [''s3://g/d/NA1/h/p/q/S1/b_R1.fq'', ''s3://g/d/NA1/h/p/q/S1/a_R2.fq'',
                  ''s3://g/d/NA1/h/p/q/S1/a_R1.fq'']"

definition demo_source :: "string \<Rightarrow> read_set_source" where
  "demo_source u =
     \<lparr>subjectId = ''ERR1'', sampleId = ''HG1'', sourceFileType = ''CRAM'', source1 = u,
      source2 = None, referenceArn = ''arn:ref/1'', generatedFrom = u,
      description = ''ERR1/HG1 from kg'', tags = [(''SourceLocation'', ''kg'')]\<rparr>"

definition accept_read_sets :: "read_set_import_request \<Rightarrow> exn + dict" where
  "accept_read_sets request = Inr [(''id'', ''job-1''), (''status'', ''SUBMITTED'')]"

definition accept_variants :: "variant_import_request \<Rightarrow> exn + dict" where
  "accept_variants request = Inr [(''jobId'', ''job-'' @ concat (items request))]"


definition two_part_reference :: transfer_object where
  "two_part_reference =
     \<lparr>parts = (\<lambda>file. case file of SOURCE \<Rightarrow> [''ACGT'', ''TTGA''] | INDEX \<Rightarrow> [''chr1 8''] | _ \<Rightarrow> []),
      faults = [], requested = []\<rparr>"

definition completing_job :: remote_job where
  "completing_job =
     \<lparr>timeline = (\<lambda>k. if k = 0 then Submitted else if k < 3 then InProgress else Completed),
      polled = 0, cancel_requests = 0\<rparr>"

definition running_job :: remote_job where
  "running_job = \<lparr>timeline = (\<lambda>k. InProgress), polled = 0, cancel_requests = 0\<rparr>"

definition reject_second :: "variant_import_request \<Rightarrow> exn + dict" where
  "reject_second request =
     (if items request = [''s3://v/2.vcf.gz''] then Inl (ClientError ''ValidationException'')
      else Inr [(''jobId'', ''job-'' @ concat (items request))])"


definition cram_readset :: transfer_object where
  "cram_readset = \<lparr>parts = (\<lambda>_. [''reads'']), faults = [], requested = []\<rparr>"

section \<open>Verified properties\<close>

subsection \<open>Looking up the reference store\<close>

lemma list_item_0: "list_item xs 0 = (case xs of [] \<Rightarrow> Inl IndexError | x # _ \<Rightarrow> Inr x)"
  by (cases xs) (simp_all add: list_item_def)

lemma get_ref_store_id_result:
  "snd (get_ref_store_id client) =
     (case ref_store_listing client of
        None \<Rightarrow> Inr None
      | Some [] \<Rightarrow> Inl IndexError
      | Some (store # _) \<Rightarrow> Inr (dict_get store ''id''))"
  by (simp add: get_ref_store_id_def list_reference_stores_def reference_stores_response_def
      list_item_0 split: option.splits list.splits)

text \<open>
  C8. When the listing holds a present but empty list of reference stores,
  \<open>get_ref_store_id\<close> raises IndexError rather than returning None, and it returns
  None only when the listing response carries no list at all: the test compares the
  list with None and then indexes element 0. The stores listed carry their \<open>id\<close>, as
  the service sends them.
\<close>

theorem get_ref_store_id_empty_listing:
  assumes "stores_have_ids client"
  shows "(snd (get_ref_store_id client) = Inl IndexError \<longleftrightarrow> ref_store_listing client = Some [])
       \<and> (snd (get_ref_store_id client) = Inr None \<longleftrightarrow> ref_store_listing client = None)"
  using assms
  by (auto simp add: get_ref_store_id_result stores_have_ids_def listed_stores_def
      split: option.splits list.splits)

theorem get_ref_store_id_empty_listing_witness:
  "stores_have_ids empty_service
   \<and> snd (get_ref_store_id empty_service) = Inl IndexError
   \<and> stores_have_ids (empty_service\<lparr>ref_store_listing := None\<rparr>)
   \<and> snd (get_ref_store_id (empty_service\<lparr>ref_store_listing := None\<rparr>)) = Inr None"
  using get_ref_store_id_empty_listing [of empty_service]
    get_ref_store_id_empty_listing [of "empty_service\<lparr>ref_store_listing := None\<rparr>"]
  by (simp add: stores_have_ids_def listed_stores_def empty_service_def)

subsection \<open>Looking up a reference by name\<close>

lemma find_arn_wf:
  "list_all (\<lambda>r. dict_get r ''name'' \<noteq> None \<and> dict_get r ''arn'' \<noteq> None) refs \<Longrightarrow>
   find_arn ref_name refs acc =
     Inr (case matches ref_name refs of [] \<Rightarrow> acc | m # ms \<Rightarrow> dict_get (last (m # ms)) ''arn'')"
proof (induction refs arbitrary: acc)
  case Nil
  then show ?case by (simp add: matches_def)
next
  case (Cons r refs)
  then obtain n a where na: "map_of r ''name'' = Some n" "map_of r ''arn'' = Some a"
    by (auto simp add: dict_get_def)
  from Cons have IH: "\<And>acc. find_arn ref_name refs acc =
     Inr (case matches ref_name refs of [] \<Rightarrow> acc | m # ms \<Rightarrow> dict_get (last (m # ms)) ''arn'')"
    by simp
  show ?case
    using na by (auto simp add: IH dict_item_def dict_get_def matches_def split: list.splits)
qed

lemma matches_arn:
  assumes "list_all (\<lambda>r. dict_get r ''name'' \<noteq> None \<and> dict_get r ''arn'' \<noteq> None) refs"
    and "matches ref_name refs = m # ms"
  shows "dict_get (last (m # ms)) ''arn'' \<noteq> None"
proof -
  have "last (m # ms) \<in> set (matches ref_name refs)"
    using assms(2) by (metis last_in_set list.distinct(1))
  then have "last (m # ms) \<in> set refs" by (simp add: matches_def)
  with assms(1) show ?thesis by (simp add: list_all_iff)
qed

text \<open>
  C10. \<open>get_reference_arn\<close> raises RuntimeError exactly when no reference store is
  listed or no reference on the first page of the store's reference listing has the
  requested name; otherwise it returns the ARN of the last reference of that page, in
  listing order, whose name is the requested one. The pages after the first are never
  read. The listings are as the service sends them: stores with their \<open>id\<close>, the
  page with its \<open>references\<close>, references with \<open>name\<close> and \<open>arn\<close>.
\<close>

theorem get_reference_arn_runtime_error:
  assumes "stores_have_ids client" and "first_page_well_formed client omics"
  shows "get_reference_arn ref_name client omics =
           (if listed_stores client = [] then Inl (RuntimeError no_store_msg)
            else case first_page_matches ref_name client omics of
                   [] \<Rightarrow> Inl (RuntimeError (not_found_msg ref_name))
                 | m # ms \<Rightarrow>
                     (case dict_get (last (m # ms)) ''arn'' of
                        None \<Rightarrow> Inl (KeyError ''arn'')
                      | Some arn \<Rightarrow> Inr arn))
         \<and> (first_page_matches ref_name client omics \<noteq> [] \<longrightarrow>
              dict_get (last (first_page_matches ref_name client omics)) ''arn'' \<noteq> None)
         \<and> get_reference_arn ref_name client (omics\<lparr>ref_later_pages := later\<rparr>) =
             get_reference_arn ref_name client omics"
proof (cases "listed_stores client")
  case Nil
  then show ?thesis
    by (auto simp add: get_reference_arn_def reference_stores_response_def listed_stores_def
        first_page_matches_def first_store_id_def references_response_def
        split: option.splits list.splits)
next
  case (Cons store rest)
  with assms(1) obtain sid where sid: "map_of store ''id'' = Some sid"
    by (auto simp add: stores_have_ids_def dict_get_def)
  then have ne: "store \<noteq> []" by auto
  from Cons have lst: "ref_store_listing client = Some (store # rest)"
    by (simp add: listed_stores_def split: option.splits)
  from assms(2) Cons sid obtain refs where refs: "ref_first_page omics sid = Some refs"
    and wf: "list_all (\<lambda>r. dict_get r ''name'' \<noteq> None \<and> dict_get r ''arn'' \<noteq> None) refs"
    by (auto simp add: first_page_well_formed_def first_store_id_def well_formed_refs_def
        dict_get_def split: option.splits)
  have fpm: "first_page_matches ref_name client omics = matches ref_name refs"
    using Cons sid refs by (simp add: first_page_matches_def first_store_id_def dict_get_def)
  have res: "get_reference_arn ref_name client omics =
      (case find_arn ref_name refs None of Inl e \<Rightarrow> Inl e
       | Inr None \<Rightarrow> Inl (RuntimeError (not_found_msg ref_name)) | Inr (Some a) \<Rightarrow> Inr a)"
    using lst sid ne refs
    by (simp add: get_reference_arn_def reference_stores_response_def dict_item_def
        references_response_def)
  have later: "get_reference_arn ref_name client (omics\<lparr>ref_later_pages := later\<rparr>) =
             get_reference_arn ref_name client omics"
    by (simp add: get_reference_arn_def references_response_def
        cong: option.case_cong sum.case_cong if_cong)
  show ?thesis
  proof (cases "matches ref_name refs")
    case Nil
    then show ?thesis using Cons fpm res later by (simp add: find_arn_wf [OF wf])
  next
    case (Cons m ms)
    from matches_arn [OF wf Cons] obtain a where "dict_get (last (m # ms)) ''arn'' = Some a"
      by auto
    then show ?thesis
      using Cons \<open>listed_stores client = store # rest\<close> fpm res later
      by (simp add: find_arn_wf [OF wf])
  qed
qed

theorem get_reference_arn_runtime_error_witness:
  "stores_have_ids grch38_service \<and> first_page_well_formed grch38_service grch38_service
   \<and> get_reference_arn ''GRCh38'' grch38_service grch38_service = Inr ''arn:ref/3''
   \<and> get_reference_arn ''T2T'' grch38_service grch38_service =
       Inl (RuntimeError (not_found_msg ''T2T''))"
proof -
  have a: "stores_have_ids grch38_service"
    by (simp add: stores_have_ids_def listed_stores_def grch38_service_def dict_get_def)
  have b: "first_page_well_formed grch38_service grch38_service"
    by (simp add: first_page_well_formed_def first_store_id_def listed_stores_def
        grch38_service_def dict_get_def well_formed_refs_def)
  have m1: "first_page_matches ''GRCh38'' grch38_service grch38_service =
     [[(''name'', ''GRCh38''), (''arn'', ''arn:ref/1'')],
      [(''name'', ''GRCh38''), (''arn'', ''arn:ref/3'')]]"
    by (simp add: first_page_matches_def first_store_id_def listed_stores_def
        grch38_service_def dict_get_def matches_def)
  have m2: "first_page_matches ''T2T'' grch38_service grch38_service = []"
    by (simp add: first_page_matches_def first_store_id_def listed_stores_def
        grch38_service_def dict_get_def matches_def)
  have l: "listed_stores grch38_service \<noteq> []"
    by (simp add: listed_stores_def grch38_service_def)
  show ?thesis
    using get_reference_arn_runtime_error [OF a b, of "''GRCh38''"]
      get_reference_arn_runtime_error [OF a b, of "''T2T''"] a b
    by (simp add: m1 m2 l dict_get_def)
qed

subsection \<open>The handler of \<open>get_role_arn\<close>\<close>

text \<open>
  C9. In both notebooks the handler of \<open>get_role_arn\<close> names something that does not
  exist where it is evaluated. Whenever loading the role raises, the storage
  notebook's function ends with the AttributeError of \<open>botocore.exeptions\<close> and the
  analytics notebook's with the NameError of \<open>ClientError\<close>; the message is not
  printed and the exception raised by the load is not the one that leaves the
  function.
\<close>

theorem get_role_arn_handler_raises:
  assumes "''exeptions'' \<notin> set botocore" and "load_role iam role_name = Inl ex"
  shows "get_role_arn_storage botocore iam role_name = ([], Inl (AttributeError ''exeptions''))
       \<and> get_role_arn_analytics iam role_name = ([], Inl (NameError ''ClientError''))"
  using assms
  by (simp add: get_role_arn_storage_def get_role_arn_analytics_def module_attr_def
      global_name_def analytics_globals_def)

theorem get_role_arn_handler_raises_witness:
  "''exeptions'' \<notin> set [''exceptions'']
   \<and> load_role denying_iam ''OmicsTutorialRole'' = Inl (ClientError ''AccessDenied'')
   \<and> get_role_arn_storage [''exceptions''] denying_iam ''OmicsTutorialRole'' =
       ([], Inl (AttributeError ''exeptions''))
   \<and> get_role_arn_analytics denying_iam ''OmicsTutorialRole'' =
       ([], Inl (NameError ''ClientError''))"
  using get_role_arn_handler_raises [of "[''exceptions'']" denying_iam "''OmicsTutorialRole''"
      "ClientError ''AccessDenied''"]
  by (simp add: denying_iam_def)

subsection \<open>Manifests\<close>

lemma split_on_nonempty: "split_on sep s \<noteq> []"
  by (induction s) (auto split: list.splits)

lemma list_item_minus_1:
  "list_item xs (- 1) = (if xs = [] then Inl IndexError else Inr (last xs))"
  by (cases xs rule: rev_cases) (auto simp add: list_item_def nth_append)

lemma list_item_minus_2:
  "list_item xs (- 2) =
     (if length xs < 2 then Inl IndexError else Inr (xs ! (length xs - 2)))"
  by (auto simp add: list_item_def)

lemma cram_source_result:
  assumes "dict_get ref ''arn'' = Some arn"
  shows "cram_source urlparse ref u =
     (if length (path_segments (urlparse u)) < 2 then Inl IndexError
      else Inr \<lparr>subjectId = cram_subject (path_segments (urlparse u)),
                sampleId = cram_sample (path_segments (urlparse u)),
                sourceFileType = ''CRAM'', source1 = u, source2 = None,
                referenceArn = arn, generatedFrom = u,
                description = cram_subject (path_segments (urlparse u)) @ ''/'' @
                   cram_sample (path_segments (urlparse u)) @ '' from '' @ netloc (urlparse u),
                tags = [(''SourceLocation'', netloc (urlparse u))]\<rparr>)"
proof -
  have ne: "split_on (CHR ''.'') s \<noteq> []" for s by (rule split_on_nonempty)
  have hd0: "list_item (split_on (CHR ''.'') s) 0 = Inr (hd (split_on (CHR ''.'') s))" for s
    using ne [of s] by (cases "split_on (CHR ''.'') s") (simp_all add: list_item_0)
  show ?thesis
    using assms
    by (auto simp add: cram_source_def Let_def list_item_minus_2 list_item_minus_1 hd0
        dict_item_def dict_get_def cram_subject_def cram_sample_def)
qed

lemma cram_sources_all:
  assumes "dict_get ref ''arn'' = Some arn"
  shows "\<forall>u\<in>set uris. 2 \<le> length (path_segments (urlparse u)) \<Longrightarrow>
     cram_sources urlparse ref uris =
       Inr (map (\<lambda>u. \<lparr>subjectId = cram_subject (path_segments (urlparse u)),
                sampleId = cram_sample (path_segments (urlparse u)),
                sourceFileType = ''CRAM'', source1 = u, source2 = None,
                referenceArn = arn, generatedFrom = u,
                description = cram_subject (path_segments (urlparse u)) @ ''/'' @
                   cram_sample (path_segments (urlparse u)) @ '' from '' @ netloc (urlparse u),
                tags = [(''SourceLocation'', netloc (urlparse u))]\<rparr>) uris)"
proof (induction uris)
  case Nil
  then show ?case by simp
next
  case (Cons u uris)
  then have "\<not> length (path_segments (urlparse u)) < 2" by simp
  with Cons show ?case
    by (simp add: cram_source_result [OF assms])
qed

lemma cram_sources_short:
  assumes "dict_get ref ''arn'' = Some arn"
  shows "cram_sources urlparse ref uris = Inl IndexError \<longleftrightarrow>
            (\<exists>u\<in>set uris. length (path_segments (urlparse u)) < 2)"
proof (induction uris)
  case Nil
  then show ?case by simp
next
  case (Cons u uris)
  then show ?case
    by (cases "length (path_segments (urlparse u)) < 2")
      (auto simp add: cram_source_result [OF assms] split: sum.splits)
qed

text \<open>
  C6, as amended. For every CRAM source the cell takes the subject identifier from the
  segment before the last of the locator's path and the sample identifier from the
  last segment up to its first dot. When some source's path has fewer than the two
  segments these positions need, the build fails with Python's built-in IndexError,
  raised by the indexing itself; the notebook defines no error of its own for it.
  When every path has them, the build gives one import source per locator, in order.
\<close>

theorem cram_sources_fixed_positions:
  assumes "dict_get ref ''arn'' = Some arn"
  shows "(cram_sources urlparse ref uris = Inl IndexError \<longleftrightarrow>
            (\<exists>u\<in>set uris. length (path_segments (urlparse u)) < 2))
       \<and> ((\<forall>u\<in>set uris. 2 \<le> length (path_segments (urlparse u))) \<longrightarrow>
            cram_sources urlparse ref uris =
              Inr (map (\<lambda>u. \<lparr>subjectId = cram_subject (path_segments (urlparse u)),
                sampleId = cram_sample (path_segments (urlparse u)),
                sourceFileType = ''CRAM'', source1 = u, source2 = None,
                referenceArn = arn, generatedFrom = u,
                description = cram_subject (path_segments (urlparse u)) @ ''/'' @
                   cram_sample (path_segments (urlparse u)) @ '' from '' @ netloc (urlparse u),
                tags = [(''SourceLocation'', netloc (urlparse u))]\<rparr>) uris))
       \<and> ((\<forall>u\<in>set uris. 2 \<le> length (path_segments (urlparse u))) \<longrightarrow>
            (\<exists>ds. cram_sources urlparse ref uris = Inr ds
               \<and> map subjectId ds = map (\<lambda>u. cram_subject (path_segments (urlparse u))) uris
               \<and> map sampleId ds = map (\<lambda>u. cram_sample (path_segments (urlparse u))) uris))"
proof (intro conjI impI)
  show "cram_sources urlparse ref uris = Inl IndexError \<longleftrightarrow>
            (\<exists>u\<in>set uris. length (path_segments (urlparse u)) < 2)"
    by (rule cram_sources_short [OF assms])
next
  assume "\<forall>u\<in>set uris. 2 \<le> length (path_segments (urlparse u))"
  then show "cram_sources urlparse ref uris =
              Inr (map (\<lambda>u. \<lparr>subjectId = cram_subject (path_segments (urlparse u)),
                sampleId = cram_sample (path_segments (urlparse u)),
                sourceFileType = ''CRAM'', source1 = u, source2 = None,
                referenceArn = arn, generatedFrom = u,
                description = cram_subject (path_segments (urlparse u)) @ ''/'' @
                   cram_sample (path_segments (urlparse u)) @ '' from '' @ netloc (urlparse u),
                tags = [(''SourceLocation'', netloc (urlparse u))]\<rparr>) uris)"
    by (rule cram_sources_all [OF assms])
next
  assume "\<forall>u\<in>set uris. 2 \<le> length (path_segments (urlparse u))"
  from cram_sources_all [OF assms this]
  show "\<exists>ds. cram_sources urlparse ref uris = Inr ds
               \<and> map subjectId ds = map (\<lambda>u. cram_subject (path_segments (urlparse u))) uris
               \<and> map sampleId ds = map (\<lambda>u. cram_sample (path_segments (urlparse u))) uris"
    by (simp add: comp_def)
qed

lemma parse_deep: "s3_urlparse ''s3://kg/data/ERR1/HG1.final.cram'' =
    \<lparr>netloc = ''kg'', path = ''/data/ERR1/HG1.final.cram''\<rparr>"
  by (simp add: s3_urlparse_def after_scheme_def scheme_letters_def scheme_chars_def)

lemma parse_shallow: "s3_urlparse ''s3://kg/HG1.cram'' = \<lparr>netloc = ''kg'', path = ''/HG1.cram''\<rparr>"
  by (simp add: s3_urlparse_def after_scheme_def scheme_letters_def scheme_chars_def)

theorem cram_sources_fixed_positions_witness:
  "dict_get stashed_ref ''arn'' = Some ''arn:ref/1''
   \<and> cram_sources s3_urlparse stashed_ref
        [''s3://kg/data/ERR1/HG1.final.cram'', ''s3://kg/HG1.cram''] = Inl IndexError
   \<and> cram_sources s3_urlparse stashed_ref [''s3://kg/data/ERR1/HG1.final.cram''] =
       Inr [\<lparr>subjectId = ''ERR1'', sampleId = ''HG1'', sourceFileType = ''CRAM'',
             source1 = ''s3://kg/data/ERR1/HG1.final.cram'', source2 = None,
             referenceArn = ''arn:ref/1'', generatedFrom = ''s3://kg/data/ERR1/HG1.final.cram'',
             description = ''ERR1/HG1 from kg'', tags = [(''SourceLocation'', ''kg'')]\<rparr>]"
proof -
  have a: "dict_get stashed_ref ''arn'' = Some ''arn:ref/1''"
    by (simp add: stashed_ref_def dict_get_def)
  have p1: "path_segments (s3_urlparse ''s3://kg/data/ERR1/HG1.final.cram'') =
      [''data'', ''ERR1'', ''HG1.final.cram'']"
    by (simp add: parse_deep path_segments_def)
  have p2: "path_segments (s3_urlparse ''s3://kg/HG1.cram'') = [''HG1.cram'']"
    by (simp add: parse_shallow path_segments_def)
  have nl: "netloc (s3_urlparse ''s3://kg/data/ERR1/HG1.final.cram'') = ''kg''"
    by (simp add: parse_deep)
  have short: "cram_sources s3_urlparse stashed_ref
        [''s3://kg/data/ERR1/HG1.final.cram'', ''s3://kg/HG1.cram''] = Inl IndexError"
    using cram_sources_fixed_positions [OF a, of s3_urlparse
        "[''s3://kg/data/ERR1/HG1.final.cram'', ''s3://kg/HG1.cram'']", THEN conjunct1]
    by (simp add: p1 p2)
  have deep: "cram_sources s3_urlparse stashed_ref [''s3://kg/data/ERR1/HG1.final.cram''] =
       Inr [\<lparr>subjectId = ''ERR1'', sampleId = ''HG1'', sourceFileType = ''CRAM'',
             source1 = ''s3://kg/data/ERR1/HG1.final.cram'', source2 = None,
             referenceArn = ''arn:ref/1'', generatedFrom = ''s3://kg/data/ERR1/HG1.final.cram'',
             description = ''ERR1/HG1 from kg'', tags = [(''SourceLocation'', ''kg'')]\<rparr>]"
    using cram_sources_fixed_positions [OF a, of s3_urlparse
        "[''s3://kg/data/ERR1/HG1.final.cram'']", THEN conjunct2, THEN conjunct1]
    by (simp add: p1 nl cram_subject_def cram_sample_def)
  from a short deep show ?thesis by simp
qed

text \<open>
  C6 as stated fails: on a locator whose path has one segment the build ends with the
  IndexError of list indexing, not with a ManifestFieldMissing.
\<close>

theorem cram_sources_index_error_counterexample:
  "path_segments (s3_urlparse ''s3://kg/HG1.cram'') = [''HG1.cram'']
   \<and> cram_sources s3_urlparse stashed_ref [''s3://kg/HG1.cram''] = Inl IndexError
   \<and> cram_source s3_urlparse stashed_ref ''s3://kg/HG1.cram'' = Inl IndexError"
  by (simp add: cram_source_def parse_shallow path_segments_def list_item_def)

lemma pair_reads_length: "length (pair_reads fastq) = length fastq div 2"
  by (simp add: pair_reads_def)

lemma pair_reads_fst: "map fst (pair_reads fastq) = take (length fastq div 2) (sort fastq)"
  by (simp add: pair_reads_def map_fst_zip_take min_def)

lemma pair_reads_snd:
  "map snd (pair_reads fastq) = take (length fastq div 2) (drop (length fastq div 2) (sort fastq))"
proof -
  have "min (min (length fastq) (length fastq div 2)) (length fastq - length fastq div 2) =
        length fastq div 2"
    by arith
  then show ?thesis
    by (simp add: pair_reads_def map_snd_zip_take)
qed

lemma pair_reads_odd_uses:
  assumes "odd (length fastq)"
  shows "map fst (pair_reads fastq) @ map snd (pair_reads fastq) = butlast (sort fastq)"
proof -
  define k where "k = length fastq div 2"
  define s where "s = sort fastq"
  have n: "length s = k + k + 1"
    using assms by (auto simp add: k_def s_def elim: oddE)
  have "take k s @ take k (drop k s) = take (k + k) s"
    by (simp add: take_add)
  also have "\<dots> = butlast s"
    using n by (simp add: butlast_conv_take)
  finally show ?thesis
    by (simp add: pair_reads_fst pair_reads_snd k_def s_def)
qed

lemma fastq_source_result:
  assumes "dict_get ref ''arn'' = Some arn"
  shows "fastq_source urlparse ref reads =
     (if length (path_segments (urlparse (fst reads))) < 6 then Inl IndexError
      else Inr \<lparr>subjectId = path_segments (urlparse (fst reads)) ! 1,
                sampleId = path_segments (urlparse (fst reads)) ! 5,
                sourceFileType = ''FASTQ'', source1 = fst reads, source2 = Some (snd reads),
                referenceArn = arn,
                generatedFrom = path_segments (urlparse (fst reads)) ! 1 @ ''/'' @
                   path_segments (urlparse (fst reads)) ! 5 @ '' fastq'',
                description = path_segments (urlparse (fst reads)) ! 1 @ ''/'' @
                   path_segments (urlparse (fst reads)) ! 5 @ '' from '' @
                   netloc (urlparse (fst reads)),
                tags = [(''SourceLocation'', netloc (urlparse (fst reads)))]\<rparr>)"
  using assms
  by (auto simp add: fastq_source_def Let_def list_item_def dict_item_def dict_get_def)

lemma fastq_pairs_sources_result:
  assumes "dict_get ref ''arn'' = Some arn"
  shows "(fastq_pairs_sources urlparse ref pairs = Inl IndexError \<longleftrightarrow>
            (\<exists>reads\<in>set pairs. length (path_segments (urlparse (fst reads))) < 6))
       \<and> ((\<forall>reads\<in>set pairs. 6 \<le> length (path_segments (urlparse (fst reads)))) \<longrightarrow>
            (\<exists>ds. fastq_pairs_sources urlparse ref pairs = Inr ds \<and> length ds = length pairs
               \<and> map source1 ds = map fst pairs \<and> map source2 ds = map (Some \<circ> snd) pairs))"
proof (induction pairs)
  case Nil
  then show ?case by simp
next
  case (Cons reads pairs)
  show ?case
  proof (cases "length (path_segments (urlparse (fst reads))) < 6")
    case True
    then show ?thesis by (auto simp add: fastq_source_result [OF assms])
  next
    case False
    then show ?thesis
      using Cons by (auto simp add: fastq_source_result [OF assms] split: sum.splits)
  qed
qed

lemma fastq_pairs_sources_all:
  assumes "dict_get ref ''arn'' = Some arn"
  shows "\<forall>reads\<in>set pairs. 6 \<le> length (path_segments (urlparse (fst reads))) \<Longrightarrow>
     fastq_pairs_sources urlparse ref pairs =
       Inr (map (\<lambda>reads. \<lparr>subjectId = path_segments (urlparse (fst reads)) ! 1,
                sampleId = path_segments (urlparse (fst reads)) ! 5,
                sourceFileType = ''FASTQ'', source1 = fst reads, source2 = Some (snd reads),
                referenceArn = arn,
                generatedFrom = path_segments (urlparse (fst reads)) ! 1 @ ''/'' @
                   path_segments (urlparse (fst reads)) ! 5 @ '' fastq'',
                description = path_segments (urlparse (fst reads)) ! 1 @ ''/'' @
                   path_segments (urlparse (fst reads)) ! 5 @ '' from '' @
                   netloc (urlparse (fst reads)),
                tags = [(''SourceLocation'', netloc (urlparse (fst reads)))]\<rparr>) pairs)"
proof (induction pairs)
  case Nil
  then show ?case by simp
next
  case (Cons reads pairs)
  then have "\<not> length (path_segments (urlparse (fst reads))) < 6" by simp
  with Cons show ?case
    by (simp add: fastq_source_result [OF assms])
qed

text \<open>
  C5, as amended. An odd number of FASTQ locators does not make the build fail for
  being odd. The sorted locators are split at half their number, rounded down, and
  zipped: there is one pair for every two locators, and the pairs use every sorted
  locator but the last. The build gives, for each pair in order, the import source
  made of its two locators, with the subject and the sample read from segments 1 and
  5 of the first locator's path; it raises IndexError when the first locator of some
  pair has fewer than six path segments.
\<close>

theorem fastq_sources_odd_count:
  assumes "odd (length fastq)" and "dict_get ref ''arn'' = Some arn"
  shows "length (pair_reads fastq) = length fastq div 2
       \<and> map fst (pair_reads fastq) @ map snd (pair_reads fastq) = butlast (sort fastq)
       \<and> (fastq_sources urlparse ref fastq = Inl IndexError \<longleftrightarrow>
            (\<exists>reads\<in>set (pair_reads fastq). length (path_segments (urlparse (fst reads))) < 6))
       \<and> ((\<forall>reads\<in>set (pair_reads fastq). 6 \<le> length (path_segments (urlparse (fst reads)))) \<longrightarrow>
            fastq_sources urlparse ref fastq =
              Inr (map (\<lambda>reads. \<lparr>subjectId = path_segments (urlparse (fst reads)) ! 1,
                sampleId = path_segments (urlparse (fst reads)) ! 5,
                sourceFileType = ''FASTQ'', source1 = fst reads, source2 = Some (snd reads),
                referenceArn = arn,
                generatedFrom = path_segments (urlparse (fst reads)) ! 1 @ ''/'' @
                   path_segments (urlparse (fst reads)) ! 5 @ '' fastq'',
                description = path_segments (urlparse (fst reads)) ! 1 @ ''/'' @
                   path_segments (urlparse (fst reads)) ! 5 @ '' from '' @
                   netloc (urlparse (fst reads)),
                tags = [(''SourceLocation'', netloc (urlparse (fst reads)))]\<rparr>)
                (pair_reads fastq)))
       \<and> ((\<forall>reads\<in>set (pair_reads fastq). 6 \<le> length (path_segments (urlparse (fst reads)))) \<longrightarrow>
            (\<exists>ds. fastq_sources urlparse ref fastq = Inr ds \<and> length ds = length fastq div 2))"
  using fastq_pairs_sources_result [OF assms(2), of urlparse "pair_reads fastq"]
    fastq_pairs_sources_all [OF assms(2), of "pair_reads fastq" urlparse]
    pair_reads_odd_uses [OF assms(1)]
  by (auto simp add: fastq_sources_def pair_reads_length)

lemma sort_three: "sort three_fastq = [''s3://g/d/NA1/h/p/q/S1/a_R1.fq'', ''s3://g/d/NA1/h/p/q/S1/a_R2.fq'',
                  ''s3://g/d/NA1/h/p/q/S1/b_R1.fq'']"
  by (simp add: three_fastq_def less_eq_char_def)

lemma pair_three: "pair_reads three_fastq = [(''s3://g/d/NA1/h/p/q/S1/a_R1.fq'', ''s3://g/d/NA1/h/p/q/S1/a_R2.fq'')]"
  by (simp add: pair_reads_def sort_three) (simp add: three_fastq_def)

lemma seg_three: "path_segments (s3_urlparse ''s3://g/d/NA1/h/p/q/S1/a_R1.fq'') = [''d'', ''NA1'', ''h'', ''p'', ''q'', ''S1'', ''a_R1.fq'']"
  by (simp add: path_segments_def s3_urlparse_def after_scheme_def scheme_letters_def
      scheme_chars_def)

theorem fastq_sources_odd_count_witness:
  "odd (length three_fastq) \<and> dict_get stashed_ref ''arn'' = Some ''arn:ref/1''
   \<and> length (pair_reads three_fastq) = 1
   \<and> fastq_sources s3_urlparse stashed_ref three_fastq =
       Inr [\<lparr>subjectId = ''NA1'', sampleId = ''S1'', sourceFileType = ''FASTQ'',
             source1 = ''s3://g/d/NA1/h/p/q/S1/a_R1.fq'',
             source2 = Some ''s3://g/d/NA1/h/p/q/S1/a_R2.fq'',
             referenceArn = ''arn:ref/1'', generatedFrom = ''NA1/S1 fastq'',
             description = ''NA1/S1 from g'', tags = [(''SourceLocation'', ''g'')]\<rparr>]"
proof -
  have a: "odd (length three_fastq)" by (simp add: three_fastq_def)
  have b: "dict_get stashed_ref ''arn'' = Some ''arn:ref/1''"
    by (simp add: stashed_ref_def dict_get_def)
  have n: "length three_fastq div 2 = 1" by (simp add: three_fastq_def)
  have nl: "netloc (s3_urlparse ''s3://g/d/NA1/h/p/q/S1/a_R1.fq'') = ''g''"
    by (simp add: s3_urlparse_def after_scheme_def scheme_letters_def scheme_chars_def)
  note t = fastq_sources_odd_count [OF a b, of s3_urlparse]
  have len: "length (pair_reads three_fastq) = 1"
    using t [THEN conjunct1] by (simp add: n)
  have built: "fastq_sources s3_urlparse stashed_ref three_fastq =
       Inr [\<lparr>subjectId = ''NA1'', sampleId = ''S1'', sourceFileType = ''FASTQ'',
             source1 = ''s3://g/d/NA1/h/p/q/S1/a_R1.fq'',
             source2 = Some ''s3://g/d/NA1/h/p/q/S1/a_R2.fq'',
             referenceArn = ''arn:ref/1'', generatedFrom = ''NA1/S1 fastq'',
             description = ''NA1/S1 from g'', tags = [(''SourceLocation'', ''g'')]\<rparr>]"
    using t [THEN conjunct2, THEN conjunct2, THEN conjunct2, THEN conjunct1]
    by (simp add: pair_three seg_three nl)
  from a b len built show ?thesis by simp
qed

text \<open>
  C5 as stated fails: three locators are an odd number, and the build returns one
  import source, made of the two least locators.
\<close>
theorem fastq_sources_odd_counterexample:
  "odd (length three_fastq)
   \<and> fastq_sources s3_urlparse stashed_ref three_fastq =
       Inr [\<lparr>subjectId = ''NA1'', sampleId = ''S1'', sourceFileType = ''FASTQ'',
             source1 = ''s3://g/d/NA1/h/p/q/S1/a_R1.fq'',
             source2 = Some ''s3://g/d/NA1/h/p/q/S1/a_R2.fq'',
             referenceArn = ''arn:ref/1'', generatedFrom = ''NA1/S1 fastq'',
             description = ''NA1/S1 from g'', tags = [(''SourceLocation'', ''g'')]\<rparr>]"
  by (simp add: fastq_sources_def pair_three fastq_source_def seg_three list_item_def
      dict_item_def stashed_ref_def) (simp add: three_fastq_def s3_urlparse_def after_scheme_def scheme_letters_def
      scheme_chars_def)

subsection \<open>Import jobs\<close>

lemma get_role_arn_storage_ok:
  "load_role iam name = Inr arn \<Longrightarrow> get_role_arn_storage botocore iam name = ([], Inr arn)"
  by (simp add: get_role_arn_storage_def)

lemma get_role_arn_analytics_ok:
  "load_role iam name = Inr arn \<Longrightarrow> get_role_arn_analytics iam name = ([], Inr arn)"
  by (simp add: get_role_arn_analytics_def)

lemma variant_import_loop_all:
  assumes "load_role iam name = Inr arn" and "dict_get var_store ''name'' = Some vname"
    and "\<forall>uri\<in>set vcf_list. \<exists>response job_id.
           start_job \<lparr>destinationName = vname, variant_roleArn = arn, items = [uri]\<rparr> = Inr response
           \<and> dict_get response ''jobId'' = Some job_id"
  shows "fst (variant_import_loop iam name start_job var_store n i vcf_list) =
           map (\<lambda>uri. \<lparr>destinationName = vname, variant_roleArn = arn, items = [uri]\<rparr>) vcf_list
       \<and> snd (snd (variant_import_loop iam name start_job var_store n i vcf_list)) = Inr ()"
  using assms(3)
proof (induction vcf_list arbitrary: i)
  case Nil
  then show ?case by simp
next
  case (Cons uri rest)
  then obtain response job_id where
    r: "start_job \<lparr>destinationName = vname, variant_roleArn = arn, items = [uri]\<rparr> = Inr response"
    and j: "map_of response ''jobId'' = Some job_id"
    by (auto simp add: dict_get_def)
  obtain requests later res where
    loop: "variant_import_loop iam name start_job var_store n (Suc i) rest = (requests, later, res)"
    by (cases "variant_import_loop iam name start_job var_store n (Suc i) rest") auto
  from Cons have "fst (variant_import_loop iam name start_job var_store n (Suc i) rest) =
           map (\<lambda>uri. \<lparr>destinationName = vname, variant_roleArn = arn, items = [uri]\<rparr>) rest
       \<and> snd (snd (variant_import_loop iam name start_job var_store n (Suc i) rest)) = Inr ()"
    by simp
  with loop have IH: "requests =
      map (\<lambda>uri. \<lparr>destinationName = vname, variant_roleArn = arn, items = [uri]\<rparr>) rest"
    "res = Inr ()"
    by simp_all
  show ?case
    using assms(1,2) r j loop IH
    by (simp add: get_role_arn_analytics_ok dict_item_def dict_get_def Let_def)
qed

lemma variant_import_loop_step:
  "map items (fst (variant_import_loop iam name start_job var_store n i (uri # rest))) = []
   \<or> map items (fst (variant_import_loop iam name start_job var_store n i (uri # rest))) = [[uri]]
   \<or> map items (fst (variant_import_loop iam name start_job var_store n i (uri # rest))) =
        [uri] # map items (fst (variant_import_loop iam name start_job var_store n (Suc i) rest))"
  by (auto simp add: Let_def split: sum.splits prod.splits)

lemma variant_import_loop_prefix:
  "\<exists>k\<le>length vcf_list.
     map items (fst (variant_import_loop iam name start_job var_store n i vcf_list)) =
       map (\<lambda>uri. [uri]) (take k vcf_list)"
proof (induction vcf_list arbitrary: i)
  case Nil
  then show ?case by simp
next
  case (Cons uri rest)
  from Cons [of "Suc i"] obtain k where k: "k \<le> length rest"
    "map items (fst (variant_import_loop iam name start_job var_store n (Suc i) rest)) =
       map (\<lambda>uri. [uri]) (take k rest)"
    by blast
  let ?here = "map items (fst (variant_import_loop iam name start_job var_store n i (uri # rest)))"
  from variant_import_loop_step [of iam name start_job var_store n i uri rest]
  consider "?here = []" | "?here = [[uri]]"
    | "?here = [uri] # map items (fst (variant_import_loop iam name start_job var_store n (Suc i) rest))"
    by blast
  then show ?case
  proof cases
    case 1
    then have "?here = map (\<lambda>uri. [uri]) (take 0 (uri # rest))" by simp
    then show ?thesis by (intro exI [of _ 0]) simp
  next
    case 2
    then have "?here = map (\<lambda>uri. [uri]) (take (Suc 0) (uri # rest))" by simp
    then show ?thesis by (intro exI [of _ "Suc 0"]) simp
  next
    case 3
    with k have "?here = map (\<lambda>uri. [uri]) (take (Suc k) (uri # rest))" by simp
    with k show ?thesis by (intro exI [of _ "Suc k"]) simp
  qed
qed

lemma import_variants_named:
  assumes "dict_item var_store ''name'' = Inr vname"
  shows "fst (import_variants iam name start_job var_store vcf_list) =
           fst (variant_import_loop iam name start_job var_store (length vcf_list) 0 vcf_list)"
    and "snd (snd (import_variants iam name start_job var_store vcf_list)) =
           snd (snd (variant_import_loop iam name start_job var_store (length vcf_list) 0 vcf_list))"
  using assms
  by (cases "variant_import_loop iam name start_job var_store (length vcf_list) 0 vcf_list";
      simp add: import_variants_def Let_def)+

lemma variant_import_loop_fails_at:
  assumes "load_role iam name = Inr arn" and "dict_get var_store ''name'' = Some vname"
  shows "k < length vcf_list \<Longrightarrow>
     (\<forall>j<k. \<exists>job_id. submission_result start_job
        \<lparr>destinationName = vname, variant_roleArn = arn, items = [vcf_list ! j]\<rparr> = Inr job_id) \<Longrightarrow>
     submission_result start_job
        \<lparr>destinationName = vname, variant_roleArn = arn, items = [vcf_list ! k]\<rparr> = Inl e \<Longrightarrow>
     fst (variant_import_loop iam name start_job var_store n i vcf_list) =
       map (\<lambda>uri. \<lparr>destinationName = vname, variant_roleArn = arn, items = [uri]\<rparr>)
         (take (Suc k) vcf_list)
     \<and> snd (snd (variant_import_loop iam name start_job var_store n i vcf_list)) = Inl e"
proof (induction vcf_list arbitrary: k i)
  case Nil
  then show ?case by simp
next
  case (Cons uri rest)
  have nm: "dict_item var_store ''name'' = Inr vname"
    using assms(2) by (simp add: dict_item_def dict_get_def)
  have role: "get_role_arn_analytics iam name = ([], Inr arn)"
    using assms(1) by (simp add: get_role_arn_analytics_def)
  show ?case
  proof (cases k)
    case 0
    with Cons.prems(3) have "submission_result start_job
        \<lparr>destinationName = vname, variant_roleArn = arn, items = [uri]\<rparr> = Inl e"
      by simp
    then show ?thesis
      using 0 nm role
      by (auto simp add: submission_result_def Let_def split: sum.splits)
  next
    case (Suc k')
    from Cons.prems(2) Suc obtain job_id where
      "submission_result start_job
        \<lparr>destinationName = vname, variant_roleArn = arn, items = [uri]\<rparr> = Inr job_id"
      by fastforce
    then obtain response where
      r: "start_job \<lparr>destinationName = vname, variant_roleArn = arn, items = [uri]\<rparr> = Inr response"
      and j: "dict_item response ''jobId'' = Inr job_id"
      by (auto simp add: submission_result_def split: sum.splits)
    have a: "k' < length rest" using Cons.prems(1) Suc by simp
    have b: "\<forall>j<k'. \<exists>job_id. submission_result start_job
        \<lparr>destinationName = vname, variant_roleArn = arn, items = [rest ! j]\<rparr> = Inr job_id"
    proof (intro allI impI)
      fix j
      assume "j < k'"
      then have "Suc j < k" using Suc by simp
      with Cons.prems(2) show "\<exists>job_id. submission_result start_job
        \<lparr>destinationName = vname, variant_roleArn = arn, items = [rest ! j]\<rparr> = Inr job_id"
        by fastforce
    qed
    have c: "submission_result start_job
        \<lparr>destinationName = vname, variant_roleArn = arn, items = [rest ! k']\<rparr> = Inl e"
      using Cons.prems(3) Suc by simp
    obtain requests later res where
      loop: "variant_import_loop iam name start_job var_store n (Suc i) rest = (requests, later, res)"
      by (cases "variant_import_loop iam name start_job var_store n (Suc i) rest") auto
    from Cons.IH [OF a b c, of "Suc i"] loop
    have IH: "requests = map (\<lambda>uri. \<lparr>destinationName = vname, variant_roleArn = arn, items = [uri]\<rparr>)
         (take (Suc k') rest)" "res = Inl e"
      by simp_all
    show ?thesis
      using Suc nm role r j loop IH by (simp add: Let_def)
  qed
qed

lemma import_variants_fails_at:
  assumes "load_role iam name = Inr arn" and "dict_get var_store ''name'' = Some vname"
    and "k < length vcf_list"
    and "\<forall>j<k. \<exists>job_id. submission_result start_job
        \<lparr>destinationName = vname, variant_roleArn = arn, items = [vcf_list ! j]\<rparr> = Inr job_id"
    and "submission_result start_job
        \<lparr>destinationName = vname, variant_roleArn = arn, items = [vcf_list ! k]\<rparr> = Inl e"
  shows "fst (import_variants iam name start_job var_store vcf_list) =
       map (\<lambda>uri. \<lparr>destinationName = vname, variant_roleArn = arn, items = [uri]\<rparr>)
         (take (Suc k) vcf_list)"
    and "snd (snd (import_variants iam name start_job var_store vcf_list)) = Inl e"
proof -
  have nm: "dict_item var_store ''name'' = Inr vname"
    using assms(2) by (simp add: dict_item_def dict_get_def)
  from variant_import_loop_fails_at [OF assms(1,2,3,4,5), of "length vcf_list" 0]
  show "fst (import_variants iam name start_job var_store vcf_list) =
       map (\<lambda>uri. \<lparr>destinationName = vname, variant_roleArn = arn, items = [uri]\<rparr>)
         (take (Suc k) vcf_list)"
    and "snd (snd (import_variants iam name start_job var_store vcf_list)) = Inl e"
    by (simp_all add: import_variants_named [OF nm])
qed

lemma start_read_set_import_sent:
  assumes "load_role iam name = Inr arn" and "dict_get seqstore ''id'' = Some sid"
  shows "start_read_set_import botocore iam name start_job seqstore fastq cram =
     ([\<lparr>roleArn = arn, sequenceStoreId = sid, sources = fastq @ cram\<rparr>], [],
      start_job \<lparr>roleArn = arn, sequenceStoreId = sid, sources = fastq @ cram\<rparr>)"
  using assms
  by (simp add: start_read_set_import_def get_role_arn_storage_def dict_item_def dict_get_def
      Let_def)


lemma accepted_response:
  "submission_result start_job request = Inr job_id \<Longrightarrow>
   \<exists>response job_id. start_job request = Inr response \<and> dict_get response ''jobId'' = Some job_id"
  by (auto simp add: submission_result_def dict_item_def dict_get_def split: sum.splits option.splits)

text \<open>
  C1, as amended. No batch size enters the submission. The storage notebook sends the
  whole list of import sources as one job, whatever its length, and ends as the
  service answers it. The analytics notebook sends one job per item, in order: when
  every call succeeds, the item lists of the requests concatenate to the input list;
  at the first call that fails the loop ends with that exception, having sent the
  requests up to the failing one and none after it.
\<close>

theorem import_jobs_as_submitted:
  assumes "load_role iam name = Inr arn"
  shows "(\<forall>sid. dict_get seqstore ''id'' = Some sid \<longrightarrow>
            start_read_set_import botocore iam name start_read_sets seqstore fastq cram =
              ([\<lparr>roleArn = arn, sequenceStoreId = sid, sources = fastq @ cram\<rparr>], [],
               start_read_sets \<lparr>roleArn = arn, sequenceStoreId = sid, sources = fastq @ cram\<rparr>))
       \<and> (\<forall>vname. dict_get var_store ''name'' = Some vname
            \<and> (\<forall>uri\<in>set vcf_list. \<exists>job_id. submission_result start_variants
                  \<lparr>destinationName = vname, variant_roleArn = arn, items = [uri]\<rparr> = Inr job_id) \<longrightarrow>
            fst (import_variants iam name start_variants var_store vcf_list) =
              map (\<lambda>uri. \<lparr>destinationName = vname, variant_roleArn = arn, items = [uri]\<rparr>) vcf_list
            \<and> concat (map items (fst (import_variants iam name start_variants var_store vcf_list))) =
                vcf_list
            \<and> snd (snd (import_variants iam name start_variants var_store vcf_list)) = Inr ())
       \<and> (\<forall>vname k e. dict_get var_store ''name'' = Some vname \<and> k < length vcf_list
            \<and> (\<forall>j<k. \<exists>job_id. submission_result start_variants
                  \<lparr>destinationName = vname, variant_roleArn = arn, items = [vcf_list ! j]\<rparr> =
                    Inr job_id)
            \<and> submission_result start_variants
                  \<lparr>destinationName = vname, variant_roleArn = arn, items = [vcf_list ! k]\<rparr> = Inl e \<longrightarrow>
            fst (import_variants iam name start_variants var_store vcf_list) =
              map (\<lambda>uri. \<lparr>destinationName = vname, variant_roleArn = arn, items = [uri]\<rparr>)
                (take (Suc k) vcf_list)
            \<and> snd (snd (import_variants iam name start_variants var_store vcf_list)) = Inl e)
       \<and> (\<exists>k\<le>length vcf_list.
            map items (fst (import_variants iam name start_variants var_store vcf_list)) =
              map (\<lambda>uri. [uri]) (take k vcf_list))"
proof (intro conjI allI impI)
  fix sid
  assume "dict_get seqstore ''id'' = Some sid"
  with assms
  show "start_read_set_import botocore iam name start_read_sets seqstore fastq cram =
              ([\<lparr>roleArn = arn, sequenceStoreId = sid, sources = fastq @ cram\<rparr>], [],
               start_read_sets \<lparr>roleArn = arn, sequenceStoreId = sid, sources = fastq @ cram\<rparr>)"
    by (rule start_read_set_import_sent)
next
  fix vname
  assume h: "dict_get var_store ''name'' = Some vname
            \<and> (\<forall>uri\<in>set vcf_list. \<exists>job_id. submission_result start_variants
                  \<lparr>destinationName = vname, variant_roleArn = arn, items = [uri]\<rparr> = Inr job_id)"
  then have acc: "\<forall>uri\<in>set vcf_list. \<exists>response job_id.
           start_variants \<lparr>destinationName = vname, variant_roleArn = arn, items = [uri]\<rparr> =
             Inr response
           \<and> dict_get response ''jobId'' = Some job_id"
    by (blast dest: accepted_response)
  from h have vn: "dict_get var_store ''name'' = Some vname" by simp
  have all: "fst (variant_import_loop iam name start_variants var_store (length vcf_list) 0 vcf_list) =
           map (\<lambda>uri. \<lparr>destinationName = vname, variant_roleArn = arn, items = [uri]\<rparr>) vcf_list
       \<and> snd (snd (variant_import_loop iam name start_variants var_store (length vcf_list) 0 vcf_list)) = Inr ()"
    by (rule variant_import_loop_all [OF assms vn acc])
  from h have name: "dict_item var_store ''name'' = Inr vname"
    by (simp add: dict_item_def dict_get_def)
  show first: "fst (import_variants iam name start_variants var_store vcf_list) =
      map (\<lambda>uri. \<lparr>destinationName = vname, variant_roleArn = arn, items = [uri]\<rparr>) vcf_list"
    using all by (simp add: import_variants_named [OF name])
  show "concat (map items (fst (import_variants iam name start_variants var_store vcf_list))) =
      vcf_list"
    by (simp add: first comp_def)
  show "snd (snd (import_variants iam name start_variants var_store vcf_list)) = Inr ()"
    using all by (simp add: import_variants_named [OF name])
next
  fix vname k e
  assume h: "dict_get var_store ''name'' = Some vname \<and> k < length vcf_list
            \<and> (\<forall>j<k. \<exists>job_id. submission_result start_variants
                  \<lparr>destinationName = vname, variant_roleArn = arn, items = [vcf_list ! j]\<rparr> =
                    Inr job_id)
            \<and> submission_result start_variants
                  \<lparr>destinationName = vname, variant_roleArn = arn, items = [vcf_list ! k]\<rparr> = Inl e"
  then show "fst (import_variants iam name start_variants var_store vcf_list) =
              map (\<lambda>uri. \<lparr>destinationName = vname, variant_roleArn = arn, items = [uri]\<rparr>)
                (take (Suc k) vcf_list)"
    using import_variants_fails_at(1) [OF assms, of var_store vname k vcf_list start_variants e]
    by blast
  from h show "snd (snd (import_variants iam name start_variants var_store vcf_list)) = Inl e"
    using import_variants_fails_at(2) [OF assms, of var_store vname k vcf_list start_variants e]
    by blast
next
  show "\<exists>k\<le>length vcf_list.
       map items (fst (import_variants iam name start_variants var_store vcf_list)) =
       map (\<lambda>uri. [uri]) (take k vcf_list)"
  proof (cases "dict_item var_store ''name''")
    case (Inl e)
    then have "map items (fst (import_variants iam name start_variants var_store vcf_list)) =
       map (\<lambda>uri. [uri]) (take 0 vcf_list)"
      by (simp add: import_variants_def)
    then show ?thesis by (intro exI [of _ 0]) simp
  next
    case (Inr vname)
    then have "fst (import_variants iam name start_variants var_store vcf_list) =
       fst (variant_import_loop iam name start_variants var_store (length vcf_list) 0 vcf_list)"
      by (simp add: import_variants_named)
    then show ?thesis
      using variant_import_loop_prefix [of vcf_list iam name start_variants var_store "length vcf_list" 0]
      by simp
  qed
qed

lemma reject_second_results:
  "submission_result reject_second
     \<lparr>destinationName = d, variant_roleArn = a, items = [''s3://v/1.vcf.gz'']\<rparr> =
       Inr ''job-s3://v/1.vcf.gz''"
  "submission_result reject_second
     \<lparr>destinationName = d, variant_roleArn = a, items = [''s3://v/2.vcf.gz'']\<rparr> =
       Inl (ClientError ''ValidationException'')"
  "submission_result accept_variants
     \<lparr>destinationName = d, variant_roleArn = a, items = [u]\<rparr> = Inr (''job-'' @ u)"
  by (simp_all add: submission_result_def reject_second_def accept_variants_def dict_item_def)

theorem import_jobs_as_submitted_witness:
  "load_role granting_iam ''OmicsTutorialRole'' = Inr ''arn:aws:iam::role/OmicsTutorialRole''
   \<and> start_read_set_import [''exceptions''] granting_iam ''OmicsTutorialRole''
        accept_read_sets [(''id'', ''77'')] [demo_source ''a'', demo_source ''b'']
        [demo_source ''c''] =
       ([\<lparr>roleArn = ''arn:aws:iam::role/OmicsTutorialRole'', sequenceStoreId = ''77'',
          sources = [demo_source ''a'', demo_source ''b'', demo_source ''c'']\<rparr>], [],
        Inr [(''id'', ''job-1''), (''status'', ''SUBMITTED'')])
   \<and> map items (fst (import_variants granting_iam ''OmicsTutorialRole'' accept_variants
        [(''name'', ''tutorial_variants'')] [''s3://v/1.vcf.gz'', ''s3://v/2.vcf.gz''])) =
       [[''s3://v/1.vcf.gz''], [''s3://v/2.vcf.gz'']]
   \<and> map items (fst (import_variants granting_iam ''OmicsTutorialRole'' reject_second
        [(''name'', ''tutorial_variants'')]
        [''s3://v/1.vcf.gz'', ''s3://v/2.vcf.gz'', ''s3://v/3.vcf.gz''])) =
       [[''s3://v/1.vcf.gz''], [''s3://v/2.vcf.gz'']]
   \<and> snd (snd (import_variants granting_iam ''OmicsTutorialRole'' reject_second
        [(''name'', ''tutorial_variants'')]
        [''s3://v/1.vcf.gz'', ''s3://v/2.vcf.gz'', ''s3://v/3.vcf.gz''])) =
       Inl (ClientError ''ValidationException'')"
proof -
  have a: "load_role granting_iam ''OmicsTutorialRole'' = Inr ''arn:aws:iam::role/OmicsTutorialRole''"
    by (simp add: granting_iam_def)
  have ok: "\<forall>uri\<in>set [''s3://v/1.vcf.gz'', ''s3://v/2.vcf.gz''].
      \<exists>job_id. submission_result accept_variants
        \<lparr>destinationName = ''tutorial_variants'',
          variant_roleArn = ''arn:aws:iam::role/OmicsTutorialRole'', items = [uri]\<rparr> = Inr job_id"
    by (simp add: reject_second_results)
  have before: "\<forall>j<Suc 0. \<exists>job_id. submission_result reject_second
        \<lparr>destinationName = ''tutorial_variants'',
          variant_roleArn = ''arn:aws:iam::role/OmicsTutorialRole'',
          items = [[''s3://v/1.vcf.gz'', ''s3://v/2.vcf.gz'', ''s3://v/3.vcf.gz''] ! j]\<rparr> =
            Inr job_id"
    by (simp add: reject_second_results)
  have t1: "fst (import_variants granting_iam ''OmicsTutorialRole'' accept_variants
        [(''name'', ''tutorial_variants'')] [''s3://v/1.vcf.gz'', ''s3://v/2.vcf.gz'']) =
      map (\<lambda>uri. \<lparr>destinationName = ''tutorial_variants'',
          variant_roleArn = ''arn:aws:iam::role/OmicsTutorialRole'', items = [uri]\<rparr>)
        [''s3://v/1.vcf.gz'', ''s3://v/2.vcf.gz'']"
    using import_jobs_as_submitted [OF a, of "[(''id'', ''77'')]" "[''exceptions'']"
        accept_read_sets "[demo_source ''a'', demo_source ''b'']" "[demo_source ''c'']"
        "[(''name'', ''tutorial_variants'')]" "[''s3://v/1.vcf.gz'', ''s3://v/2.vcf.gz'']"
        accept_variants] ok
    by (simp add: dict_get_def)
  have t2: "fst (import_variants granting_iam ''OmicsTutorialRole'' reject_second
        [(''name'', ''tutorial_variants'')]
        [''s3://v/1.vcf.gz'', ''s3://v/2.vcf.gz'', ''s3://v/3.vcf.gz'']) =
      map (\<lambda>uri. \<lparr>destinationName = ''tutorial_variants'',
          variant_roleArn = ''arn:aws:iam::role/OmicsTutorialRole'', items = [uri]\<rparr>)
        (take (Suc (Suc 0)) [''s3://v/1.vcf.gz'', ''s3://v/2.vcf.gz'', ''s3://v/3.vcf.gz''])
     \<and> snd (snd (import_variants granting_iam ''OmicsTutorialRole'' reject_second
        [(''name'', ''tutorial_variants'')]
        [''s3://v/1.vcf.gz'', ''s3://v/2.vcf.gz'', ''s3://v/3.vcf.gz''])) =
       Inl (ClientError ''ValidationException'')"
    using import_jobs_as_submitted [OF a, of "[(''id'', ''77'')]" "[''exceptions'']"
        accept_read_sets "[demo_source ''a'', demo_source ''b'']" "[demo_source ''c'']"
        "[(''name'', ''tutorial_variants'')]"
        "[''s3://v/1.vcf.gz'', ''s3://v/2.vcf.gz'', ''s3://v/3.vcf.gz'']" reject_second,
        THEN conjunct2, THEN conjunct2, THEN conjunct1, THEN spec, THEN spec, THEN spec,
        of "''tutorial_variants''" "Suc 0" "ClientError ''ValidationException''"] before
    by (simp add: dict_get_def reject_second_results)
  have t3: "start_read_set_import [''exceptions''] granting_iam ''OmicsTutorialRole''
        accept_read_sets [(''id'', ''77'')] [demo_source ''a'', demo_source ''b'']
        [demo_source ''c''] =
       ([\<lparr>roleArn = ''arn:aws:iam::role/OmicsTutorialRole'', sequenceStoreId = ''77'',
          sources = [demo_source ''a'', demo_source ''b'', demo_source ''c'']\<rparr>], [],
        Inr [(''id'', ''job-1''), (''status'', ''SUBMITTED'')])"
    using import_jobs_as_submitted [OF a, of "[(''id'', ''77'')]" "[''exceptions'']"
        accept_read_sets "[demo_source ''a'', demo_source ''b'']" "[demo_source ''c'']"
        "[(''name'', ''tutorial_variants'')]" "[''s3://v/1.vcf.gz'', ''s3://v/2.vcf.gz'']"
        accept_variants]
    by (simp add: dict_get_def accept_read_sets_def)
  show ?thesis
    using a t1 t2 t3 by simp
qed

text \<open>
  C1 as stated fails: with three import sources and a batch size of two, two jobs of
  at most two sources are claimed; the notebook sends one job holding all three.
\<close>
theorem read_set_import_single_job_counterexample:
  "length ([demo_source ''a'', demo_source ''b''] @ [demo_source ''c'']) = 3
   \<and> length (fst (start_read_set_import [''exceptions''] granting_iam ''OmicsTutorialRole''
        accept_read_sets [(''id'', ''77'')] [demo_source ''a'', demo_source ''b'']
        [demo_source ''c''])) \<noteq> ceil_div 3 2
   \<and> \<not> length (sources (hd (fst (start_read_set_import [''exceptions''] granting_iam
        ''OmicsTutorialRole'' accept_read_sets [(''id'', ''77'')]
        [demo_source ''a'', demo_source ''b''] [demo_source ''c''])))) \<le> 2"
  by (simp add: start_read_set_import_def get_role_arn_storage_def granting_iam_def
      dict_item_def ceil_div_def Let_def)

subsection \<open>Errors caught by the cells\<close>




subsection \<open>Creating the stores\<close>





subsection \<open>Downloading parts\<close>

lemma get_part_first:
  assumes "no_fault_ahead (Suc n) obj" and "parts obj file = p # ps"
  shows "get_part file 1 obj =
     (obj\<lparr>faults := drop 1 (faults obj), requested := requested obj @ [(file, 1)]\<rparr>,
      Inr (Inr p))"
  using assms
  by (cases "faults obj") (auto simp add: get_part_def no_fault_ahead_def Let_def)

lemma get_part_request_fails:
  assumes "faults obj = Some (RequestFails e) # rest"
  shows "get_part file k obj =
     (obj\<lparr>faults := rest, requested := requested obj @ [(file, k)]\<rparr>, Inl e)"
  using assms by (simp add: get_part_def Let_def)

lemma get_part_read_fails:
  assumes "faults obj = Some (ReadFails e) # rest" and "parts obj file = p # ps"
  shows "get_part file 1 obj =
     (obj\<lparr>faults := rest, requested := requested obj @ [(file, 1)]\<rparr>, Inr (Inl e))"
  using assms by (simp add: get_part_def Let_def)

lemma get_part_after_none:
  assumes "faults obj = None # rest" and "parts obj file = p # ps"
  shows "get_part file 1 obj =
     (obj\<lparr>faults := rest, requested := requested obj @ [(file, 1)]\<rparr>, Inr (Inr p))"
  using assms by (simp add: get_part_def Let_def)

text \<open>
  C2, as amended. The download cells request part 1 of the named file and no other
  part, once, and write it to the destination: after them the destination holds
  exactly the bytes of part 1, which is the whole file exactly when every further
  part is empty, as when the file has one part. Nothing is retried, whichever
  request it is: a request that fails leaves the cell as its exception with its
  destination not written, and a payload whose read fails leaves its destination
  empty.
\<close>

theorem download_reference_part_one:
  "(\<forall>p ps q qs. no_fault_ahead 2 reference \<and> parts reference SOURCE = p # ps
        \<and> parts reference INDEX = q # qs \<longrightarrow>
      download_reference_parts reference fs =
        (reference\<lparr>faults := drop 2 (faults reference),
                   requested := requested reference @ [(SOURCE, 1), (INDEX, 1)]\<rparr>,
         fs(''reference.part.fa'' \<mapsto> p, ''reference.part.fai'' \<mapsto> q),
         Inr ())
      \<and> (fst (snd (download_reference_parts reference fs)) ''reference.part.fa'' =
             Some (concat (parts reference SOURCE)) \<longleftrightarrow> concat ps = []))
   \<and> (\<forall>e rest. faults reference = Some (RequestFails e) # rest \<longrightarrow>
        download_reference_parts reference fs =
          (reference\<lparr>faults := rest, requested := requested reference @ [(SOURCE, 1)]\<rparr>,
           fs, Inl e))
   \<and> (\<forall>e rest p ps. faults reference = Some (ReadFails e) # rest
        \<and> parts reference SOURCE = p # ps \<longrightarrow>
        download_reference_parts reference fs =
          (reference\<lparr>faults := rest, requested := requested reference @ [(SOURCE, 1)]\<rparr>,
           fs(''reference.part.fa'' \<mapsto> []), Inl e))
   \<and> (\<forall>e rest p ps. faults reference = None # Some (RequestFails e) # rest
        \<and> parts reference SOURCE = p # ps \<longrightarrow>
        download_reference_parts reference fs =
          (reference\<lparr>faults := rest,
                     requested := requested reference @ [(SOURCE, 1), (INDEX, 1)]\<rparr>,
           fs(''reference.part.fa'' \<mapsto> p), Inl e))
   \<and> (\<forall>e rest p ps q qs. faults reference = None # Some (ReadFails e) # rest
        \<and> parts reference SOURCE = p # ps \<and> parts reference INDEX = q # qs \<longrightarrow>
        download_reference_parts reference fs =
          (reference\<lparr>faults := rest,
                     requested := requested reference @ [(SOURCE, 1), (INDEX, 1)]\<rparr>,
           fs(''reference.part.fa'' \<mapsto> p, ''reference.part.fai'' \<mapsto> []), Inl e))
   \<and> (\<forall>p ps file_type. no_fault_ahead 1 readset \<and> parts readset SOURCE1 = p # ps
        \<and> dict_get readset_metadata ''fileType'' = Some file_type \<longrightarrow>
        download_read_set_part readset_metadata readset fs =
          (readset\<lparr>faults := drop 1 (faults readset),
                   requested := requested readset @ [(SOURCE1, 1)]\<rparr>,
           fs(''reads1.part.'' @ lower file_type \<mapsto> p),
           Inr ()))
   \<and> (\<forall>e rest. faults readset = Some (RequestFails e) # rest \<longrightarrow>
        download_read_set_part readset_metadata readset fs =
          (readset\<lparr>faults := rest, requested := requested readset @ [(SOURCE1, 1)]\<rparr>,
           fs, Inl e))
   \<and> (\<forall>e rest p ps file_type. faults readset = Some (ReadFails e) # rest
        \<and> parts readset SOURCE1 = p # ps
        \<and> dict_get readset_metadata ''fileType'' = Some file_type \<longrightarrow>
        download_read_set_part readset_metadata readset fs =
          (readset\<lparr>faults := rest, requested := requested readset @ [(SOURCE1, 1)]\<rparr>,
           fs(''reads1.part.'' @ lower file_type \<mapsto> []), Inl e))"
proof (intro conjI allI impI)
  fix p ps q qs
  assume h: "no_fault_ahead 2 reference \<and> parts reference SOURCE = p # ps
        \<and> parts reference INDEX = q # qs"
  let ?r1 = "reference\<lparr>faults := drop 1 (faults reference),
      requested := requested reference @ [(SOURCE, 1)]\<rparr>"
  from h have g1: "get_part SOURCE 1 reference = (?r1, Inr (Inr p))"
    using get_part_first [of 1 reference SOURCE p ps] by (simp add: numeral_2_eq_2)
  from h have nf: "no_fault_ahead (Suc 0) ?r1"
    by (cases "faults reference") (auto simp add: no_fault_ahead_def numeral_2_eq_2)
  from h have "parts ?r1 INDEX = q # qs" by simp
  from get_part_first [OF nf this]
  have g2: "get_part INDEX 1 ?r1 =
     (reference\<lparr>faults := drop 2 (faults reference),
                   requested := requested reference @ [(SOURCE, 1), (INDEX, 1)]\<rparr>,
      Inr (Inr q))"
    by (simp add: drop_Suc numeral_2_eq_2 drop_tl)
  show res: "download_reference_parts reference fs =
        (reference\<lparr>faults := drop 2 (faults reference),
                   requested := requested reference @ [(SOURCE, 1), (INDEX, 1)]\<rparr>,
         fs(''reference.part.fa'' \<mapsto> p, ''reference.part.fai'' \<mapsto> q),
         Inr ())"
    by (simp add: download_reference_parts_def g1 g2 save_payload_def del: One_nat_def)
  from h show "fst (snd (download_reference_parts reference fs)) ''reference.part.fa'' =
             Some (concat (parts reference SOURCE)) \<longleftrightarrow> concat ps = []"
    by (simp add: res)
next
  fix e rest
  assume "faults reference = Some (RequestFails e) # rest"
  then show "download_reference_parts reference fs =
          (reference\<lparr>faults := rest, requested := requested reference @ [(SOURCE, 1)]\<rparr>,
           fs, Inl e)"
    by (simp add: download_reference_parts_def get_part_request_fails del: One_nat_def)
next
  fix e rest p ps
  assume "faults reference = Some (ReadFails e) # rest \<and> parts reference SOURCE = p # ps"
  then have "get_part SOURCE 1 reference =
     (reference\<lparr>faults := rest, requested := requested reference @ [(SOURCE, 1)]\<rparr>,
      Inr (Inl e))"
    using get_part_read_fails [of reference e rest SOURCE p ps] by simp
  then show "download_reference_parts reference fs =
          (reference\<lparr>faults := rest, requested := requested reference @ [(SOURCE, 1)]\<rparr>,
           fs(''reference.part.fa'' \<mapsto> []), Inl e)"
    by (simp add: download_reference_parts_def save_payload_def del: One_nat_def)
next
  fix e rest p ps
  assume h: "faults reference = None # Some (RequestFails e) # rest
        \<and> parts reference SOURCE = p # ps"
  let ?r1 = "reference\<lparr>faults := Some (RequestFails e) # rest,
      requested := requested reference @ [(SOURCE, 1)]\<rparr>"
  from h have g1: "get_part SOURCE 1 reference = (?r1, Inr (Inr p))"
    using get_part_after_none [of reference "Some (RequestFails e) # rest" SOURCE p ps] by simp
  have g2: "get_part INDEX 1 ?r1 =
     (reference\<lparr>faults := rest,
                 requested := requested reference @ [(SOURCE, 1), (INDEX, 1)]\<rparr>, Inl e)"
    using get_part_request_fails [of ?r1 e rest INDEX 1] by simp
  show "download_reference_parts reference fs =
          (reference\<lparr>faults := rest,
                     requested := requested reference @ [(SOURCE, 1), (INDEX, 1)]\<rparr>,
           fs(''reference.part.fa'' \<mapsto> p), Inl e)"
    by (simp add: download_reference_parts_def g1 g2 save_payload_def del: One_nat_def)
next
  fix e rest p ps q qs
  assume h: "faults reference = None # Some (ReadFails e) # rest
        \<and> parts reference SOURCE = p # ps \<and> parts reference INDEX = q # qs"
  let ?r1 = "reference\<lparr>faults := Some (ReadFails e) # rest,
      requested := requested reference @ [(SOURCE, 1)]\<rparr>"
  from h have g1: "get_part SOURCE 1 reference = (?r1, Inr (Inr p))"
    using get_part_after_none [of reference "Some (ReadFails e) # rest" SOURCE p ps] by simp
  from h have g2: "get_part INDEX 1 ?r1 =
     (reference\<lparr>faults := rest,
                 requested := requested reference @ [(SOURCE, 1), (INDEX, 1)]\<rparr>, Inr (Inl e))"
    using get_part_read_fails [of ?r1 e rest INDEX q qs] by simp
  show "download_reference_parts reference fs =
          (reference\<lparr>faults := rest,
                     requested := requested reference @ [(SOURCE, 1), (INDEX, 1)]\<rparr>,
           fs(''reference.part.fa'' \<mapsto> p, ''reference.part.fai'' \<mapsto> []), Inl e)"
    by (simp add: download_reference_parts_def g1 g2 save_payload_def del: One_nat_def)
next
  fix p ps file_type
  assume h: "no_fault_ahead 1 readset \<and> parts readset SOURCE1 = p # ps
        \<and> dict_get readset_metadata ''fileType'' = Some file_type"
  then have "get_part SOURCE1 1 readset =
     (readset\<lparr>faults := drop 1 (faults readset), requested := requested readset @ [(SOURCE1, 1)]\<rparr>,
      Inr (Inr p))"
    using get_part_first [of 0 readset SOURCE1 p ps] by simp
  with h show "download_read_set_part readset_metadata readset fs =
          (readset\<lparr>faults := drop 1 (faults readset),
                   requested := requested readset @ [(SOURCE1, 1)]\<rparr>,
           fs(''reads1.part.'' @ lower file_type \<mapsto> p),
           Inr ())"
    by (simp add: download_read_set_part_def dict_item_def dict_get_def save_payload_def
        del: One_nat_def)
next
  fix e rest
  assume "faults readset = Some (RequestFails e) # rest"
  then show "download_read_set_part readset_metadata readset fs =
          (readset\<lparr>faults := rest, requested := requested readset @ [(SOURCE1, 1)]\<rparr>,
           fs, Inl e)"
    by (simp add: download_read_set_part_def get_part_request_fails del: One_nat_def)
next
  fix e rest p ps file_type
  assume h: "faults readset = Some (ReadFails e) # rest \<and> parts readset SOURCE1 = p # ps
        \<and> dict_get readset_metadata ''fileType'' = Some file_type"
  then have "get_part SOURCE1 1 readset =
     (readset\<lparr>faults := rest, requested := requested readset @ [(SOURCE1, 1)]\<rparr>,
      Inr (Inl e))"
    using get_part_read_fails [of readset e rest SOURCE1 p ps] by simp
  with h show "download_read_set_part readset_metadata readset fs =
          (readset\<lparr>faults := rest, requested := requested readset @ [(SOURCE1, 1)]\<rparr>,
           fs(''reads1.part.'' @ lower file_type \<mapsto> []), Inl e)"
    by (simp add: download_read_set_part_def dict_item_def dict_get_def save_payload_def
        del: One_nat_def)
qed

theorem download_reference_part_one_witness:
  "no_fault_ahead 2 two_part_reference
   \<and> parts two_part_reference SOURCE = [''ACGT'', ''TTGA'']
   \<and> parts two_part_reference INDEX = [''chr1 8'']
   \<and> fst (snd (download_reference_parts two_part_reference Map.empty)) =
       [''reference.part.fa'' \<mapsto> ''ACGT'', ''reference.part.fai'' \<mapsto> ''chr1 8'']
   \<and> download_reference_parts
        (two_part_reference\<lparr>faults := [Some (RequestFails (OtherError ''ReadTimeout''))]\<rparr>)
        Map.empty =
       (two_part_reference\<lparr>faults := [], requested := [(SOURCE, 1)]\<rparr>, Map.empty,
        Inl (OtherError ''ReadTimeout''))
   \<and> download_reference_parts
        (two_part_reference\<lparr>faults := [Some (ReadFails (OtherError ''IncompleteRead''))]\<rparr>)
        Map.empty =
       (two_part_reference\<lparr>faults := [], requested := [(SOURCE, 1)]\<rparr>,
        [''reference.part.fa'' \<mapsto> []], Inl (OtherError ''IncompleteRead''))
   \<and> download_reference_parts
        (two_part_reference\<lparr>faults := [None, Some (RequestFails (OtherError ''ReadTimeout'')), None]\<rparr>)
        Map.empty =
       (two_part_reference\<lparr>faults := [None], requested := [(SOURCE, 1), (INDEX, 1)]\<rparr>,
        [''reference.part.fa'' \<mapsto> ''ACGT''], Inl (OtherError ''ReadTimeout''))
   \<and> download_reference_parts
        (two_part_reference\<lparr>faults := [None, Some (ReadFails (OtherError ''IncompleteRead''))]\<rparr>)
        Map.empty =
       (two_part_reference\<lparr>faults := [], requested := [(SOURCE, 1), (INDEX, 1)]\<rparr>,
        [''reference.part.fa'' \<mapsto> ''ACGT'', ''reference.part.fai'' \<mapsto> []],
        Inl (OtherError ''IncompleteRead''))
   \<and> fst (snd (download_read_set_part [(''fileType'', ''CRAM'')] cram_readset Map.empty)) =
       [''reads1.part.cram'' \<mapsto> ''reads'']
   \<and> download_read_set_part [(''fileType'', ''CRAM'')]
        (cram_readset\<lparr>faults := [Some (RequestFails (OtherError ''ReadTimeout'')), None]\<rparr>)
        Map.empty =
       (cram_readset\<lparr>faults := [None], requested := [(SOURCE1, 1)]\<rparr>, Map.empty,
        Inl (OtherError ''ReadTimeout''))
   \<and> download_read_set_part [(''fileType'', ''CRAM'')]
        (cram_readset\<lparr>faults := [Some (ReadFails (OtherError ''IncompleteRead''))]\<rparr>)
        Map.empty =
       (cram_readset\<lparr>faults := [], requested := [(SOURCE1, 1)]\<rparr>,
        [''reads1.part.cram'' \<mapsto> []], Inl (OtherError ''IncompleteRead''))"
proof -
  have c: "lower ''CRAM'' = ''cram''"
    by (simp add: lower_def)
  note t = download_reference_part_one
  have 1: "fst (snd (download_reference_parts two_part_reference Map.empty)) =
       [''reference.part.fa'' \<mapsto> ''ACGT'', ''reference.part.fai'' \<mapsto> ''chr1 8'']
     \<and> fst (snd (download_read_set_part [(''fileType'', ''CRAM'')] cram_readset Map.empty)) =
       [''reads1.part.cram'' \<mapsto> ''reads'']"
    using t [of two_part_reference Map.empty cram_readset "[(''fileType'', ''CRAM'')]"]
    by (simp add: no_fault_ahead_def two_part_reference_def cram_readset_def c dict_get_def)
  have 2: "download_reference_parts
        (two_part_reference\<lparr>faults := [Some (RequestFails (OtherError ''ReadTimeout''))]\<rparr>)
        Map.empty =
       (two_part_reference\<lparr>faults := [], requested := [(SOURCE, 1)]\<rparr>, Map.empty,
        Inl (OtherError ''ReadTimeout''))
     \<and> download_read_set_part [(''fileType'', ''CRAM'')]
        (cram_readset\<lparr>faults := [Some (RequestFails (OtherError ''ReadTimeout'')), None]\<rparr>)
        Map.empty =
       (cram_readset\<lparr>faults := [None], requested := [(SOURCE1, 1)]\<rparr>, Map.empty,
        Inl (OtherError ''ReadTimeout''))"
    using t [of "two_part_reference\<lparr>faults := [Some (RequestFails (OtherError ''ReadTimeout''))]\<rparr>"
        Map.empty
        "cram_readset\<lparr>faults := [Some (RequestFails (OtherError ''ReadTimeout'')), None]\<rparr>"
        "[(''fileType'', ''CRAM'')]"]
    by (simp add: two_part_reference_def cram_readset_def)
  have 3: "download_reference_parts
        (two_part_reference\<lparr>faults := [Some (ReadFails (OtherError ''IncompleteRead''))]\<rparr>)
        Map.empty =
       (two_part_reference\<lparr>faults := [], requested := [(SOURCE, 1)]\<rparr>,
        [''reference.part.fa'' \<mapsto> []], Inl (OtherError ''IncompleteRead''))
     \<and> download_read_set_part [(''fileType'', ''CRAM'')]
        (cram_readset\<lparr>faults := [Some (ReadFails (OtherError ''IncompleteRead''))]\<rparr>)
        Map.empty =
       (cram_readset\<lparr>faults := [], requested := [(SOURCE1, 1)]\<rparr>,
        [''reads1.part.cram'' \<mapsto> []], Inl (OtherError ''IncompleteRead''))"
    using t [of "two_part_reference\<lparr>faults := [Some (ReadFails (OtherError ''IncompleteRead''))]\<rparr>"
        Map.empty
        "cram_readset\<lparr>faults := [Some (ReadFails (OtherError ''IncompleteRead''))]\<rparr>"
        "[(''fileType'', ''CRAM'')]"]
    by (simp add: two_part_reference_def cram_readset_def c dict_get_def)
  have 4: "download_reference_parts
        (two_part_reference\<lparr>faults := [None, Some (RequestFails (OtherError ''ReadTimeout'')), None]\<rparr>)
        Map.empty =
       (two_part_reference\<lparr>faults := [None], requested := [(SOURCE, 1), (INDEX, 1)]\<rparr>,
        [''reference.part.fa'' \<mapsto> ''ACGT''], Inl (OtherError ''ReadTimeout''))"
    using t [of "two_part_reference\<lparr>faults := [None, Some (RequestFails (OtherError ''ReadTimeout'')), None]\<rparr>"
        Map.empty cram_readset "[(''fileType'', ''CRAM'')]"]
    by (simp add: two_part_reference_def)
  have 5: "download_reference_parts
        (two_part_reference\<lparr>faults := [None, Some (ReadFails (OtherError ''IncompleteRead''))]\<rparr>)
        Map.empty =
       (two_part_reference\<lparr>faults := [], requested := [(SOURCE, 1), (INDEX, 1)]\<rparr>,
        [''reference.part.fa'' \<mapsto> ''ACGT'', ''reference.part.fai'' \<mapsto> []],
        Inl (OtherError ''IncompleteRead''))"
    using t [of "two_part_reference\<lparr>faults := [None, Some (ReadFails (OtherError ''IncompleteRead''))]\<rparr>"
        Map.empty cram_readset "[(''fileType'', ''CRAM'')]"]
    by (simp add: two_part_reference_def)
  have 0: "no_fault_ahead 2 two_part_reference
   \<and> parts two_part_reference SOURCE = [''ACGT'', ''TTGA'']
   \<and> parts two_part_reference INDEX = [''chr1 8'']"
    by (simp add: no_fault_ahead_def two_part_reference_def)
  from 0 1 2 3 4 5 show ?thesis by simp
qed

text \<open>
  C2 as stated fails: of a reference whose source has two parts, the destination
  holds the first part only and part 2 is never requested; and a request that fails
  once ends the cell, though the service would have answered the next one.
\<close>
theorem download_reference_part_one_counterexample:
  "length (parts two_part_reference SOURCE) = 2
   \<and> fst (snd (download_reference_parts two_part_reference Map.empty)) ''reference.part.fa'' \<noteq>
       Some (concat (parts two_part_reference SOURCE))
   \<and> fst (snd (download_reference_parts two_part_reference Map.empty)) ''reference.part.fa'' =
       Some ''ACGT''
   \<and> requested (fst (download_reference_parts two_part_reference Map.empty)) =
       [(SOURCE, 1), (INDEX, 1)]
   \<and> snd (snd (download_reference_parts
        (two_part_reference\<lparr>faults := [Some (RequestFails (OtherError ''ReadTimeout'')), None, None]\<rparr>)
        Map.empty)) = Inl (OtherError ''ReadTimeout'')"
  by (simp add: download_reference_parts_def get_part_def two_part_reference_def save_payload_def
      Let_def)

subsection \<open>Waiting for a job\<close>

lemma wait_loop_no_terminal:
  "\<forall>k<n. \<not> terminal (timeline job (polled job + k)) \<Longrightarrow>
   wait_loop poll_interval n job slept =
     (job\<lparr>polled := polled job + n\<rparr>, slept + n * poll_interval, WaitTimeout)"
proof (induction n arbitrary: job slept)
  case 0
  then show ?case by simp
next
  case (Suc n)
  let ?next = "job\<lparr>polled := Suc (polled job)\<rparr>"
  from Suc.prems have first: "\<not> terminal (timeline job (polled job))"
    by (metis add.right_neutral zero_less_Suc)
  have rest: "\<forall>k<n. \<not> terminal (timeline ?next (polled ?next + k))"
  proof (intro allI impI)
    fix k
    assume "k < n"
    then have "Suc k < Suc n" by simp
    with Suc.prems have "\<not> terminal (timeline job (polled job + Suc k))" by blast
    then show "\<not> terminal (timeline ?next (polled ?next + k))" by simp
  qed
  have step: "wait_loop poll_interval (Suc n) job slept =
      wait_loop poll_interval n ?next (slept + poll_interval)"
    using first by (simp add: poll_status_def)
  show ?case
    unfolding step Suc.IH [OF rest] by simp
qed

lemma wait_loop_step:
  "\<not> terminal (timeline job (polled job)) \<Longrightarrow>
   wait_loop poll_interval (Suc n) job slept =
     wait_loop poll_interval n (job\<lparr>polled := Suc (polled job)\<rparr>) (slept + poll_interval)"
  by (simp add: poll_status_def)

lemma wait_loop_stop:
  "terminal (timeline job (polled job)) \<Longrightarrow>
   wait_loop poll_interval (Suc n) job slept =
     (job\<lparr>polled := Suc (polled job)\<rparr>, slept, Terminal (timeline job (polled job)))"
  by (simp add: poll_status_def)

lemma wait_loop_four:
  assumes "timeline job (polled job) = Submitted"
    and "timeline job (Suc (polled job)) = InProgress"
    and "timeline job (Suc (Suc (polled job))) = InProgress"
    and "timeline job (Suc (Suc (Suc (polled job)))) = Completed"
  shows "wait_loop poll_interval (Suc (Suc (Suc (Suc m)))) job slept =
     (job\<lparr>polled := Suc (Suc (Suc (Suc (polled job))))\<rparr>,
      slept + poll_interval + poll_interval + poll_interval, Terminal Completed)"
proof -
  let ?j1 = "job\<lparr>polled := Suc (polled job)\<rparr>"
  let ?j2 = "job\<lparr>polled := Suc (Suc (polled job))\<rparr>"
  let ?j3 = "job\<lparr>polled := Suc (Suc (Suc (polled job)))\<rparr>"
  have "wait_loop poll_interval (Suc (Suc (Suc (Suc m)))) job slept =
      wait_loop poll_interval (Suc (Suc (Suc m))) ?j1 (slept + poll_interval)"
    using assms(1) by (intro wait_loop_step) (simp add: terminal_def)
  also have "\<dots> = wait_loop poll_interval (Suc (Suc m)) ?j2 (slept + poll_interval + poll_interval)"
    using assms(2) wait_loop_step [of ?j1 poll_interval "Suc (Suc m)" "slept + poll_interval"]
    by (simp add: terminal_def)
  also have "\<dots> = wait_loop poll_interval (Suc m) ?j3
      (slept + poll_interval + poll_interval + poll_interval)"
    using assms(3) wait_loop_step [of ?j2 poll_interval "Suc m" "slept + poll_interval + poll_interval"]
    by (simp add: terminal_def)
  also have "\<dots> = (job\<lparr>polled := Suc (Suc (Suc (Suc (polled job))))\<rparr>,
      slept + poll_interval + poll_interval + poll_interval, Terminal Completed)"
    using assms(4) wait_loop_stop [of ?j3 poll_interval m
        "slept + poll_interval + poll_interval + poll_interval"]
    by (simp add: terminal_def)
  finally show ?thesis .
qed

lemma wait_loop_first_terminal:
  "k < n \<Longrightarrow> \<forall>i<k. \<not> terminal (timeline job (polled job + i)) \<Longrightarrow>
   terminal (timeline job (polled job + k)) \<Longrightarrow>
   wait_loop poll_interval n job slept =
     (job\<lparr>polled := polled job + Suc k\<rparr>, slept + k * poll_interval,
      Terminal (timeline job (polled job + k)))"
proof (induction k arbitrary: n job slept)
  case 0
  then obtain m where "n = Suc m" by (cases n) auto
  with 0 show ?case by (simp add: poll_status_def)
next
  case (Suc k)
  then obtain m where n: "n = Suc m" and m: "k < m" by (cases n) auto
  let ?next = "job\<lparr>polled := Suc (polled job)\<rparr>"
  from Suc.prems(2) have first: "\<not> terminal (timeline job (polled job))"
    by (metis add.right_neutral zero_less_Suc)
  have rest: "\<forall>i<k. \<not> terminal (timeline ?next (polled ?next + i))"
  proof (intro allI impI)
    fix i
    assume "i < k"
    then have "Suc i < Suc k" by simp
    with Suc.prems(2) have "\<not> terminal (timeline job (polled job + Suc i))" by blast
    then show "\<not> terminal (timeline ?next (polled ?next + i))" by simp
  qed
  have last: "terminal (timeline ?next (polled ?next + k))"
    using Suc.prems(3) by simp
  have step: "wait_loop poll_interval (Suc m) job slept =
      wait_loop poll_interval m ?next (slept + poll_interval)"
    using first by (rule wait_loop_step)
  show ?case
    unfolding n step Suc.IH [OF m rest last] by simp
qed

text \<open>
  C3. When the statuses polled are Submitted, InProgress, InProgress, Completed and
  at least four polls are allowed, \<open>wait\<close> returns the terminal status Completed, at
  the fourth poll. When no terminal status is seen at any of \<open>max_attempts\<close> polls,
  as for a job still InProgress, \<open>wait\<close> returns WaitTimeout and not Completed,
  having only polled: no cancellation reaches the job and its course is unchanged. A
  terminal status is returned only as the first one seen within the polls allowed.
\<close>

theorem wait_completed_or_timeout:
  "(timeline job (polled job) = Submitted \<and> timeline job (polled job + 1) = InProgress
      \<and> timeline job (polled job + 2) = InProgress \<and> timeline job (polled job + 3) = Completed
      \<and> 4 \<le> max_attempts \<longrightarrow>
        snd (snd (wait job poll_interval max_attempts)) = Terminal Completed
        \<and> polled (fst (wait job poll_interval max_attempts)) = polled job + 4)
   \<and> ((\<forall>k<max_attempts. \<not> terminal (timeline job (polled job + k))) \<longrightarrow>
        snd (snd (wait job poll_interval max_attempts)) = WaitTimeout
        \<and> snd (snd (wait job poll_interval max_attempts)) \<noteq> Terminal Completed
        \<and> polled (fst (wait job poll_interval max_attempts)) = polled job + max_attempts
        \<and> cancel_requests (fst (wait job poll_interval max_attempts)) = cancel_requests job
        \<and> timeline (fst (wait job poll_interval max_attempts)) = timeline job)
   \<and> ((\<forall>k<max_attempts. timeline job (polled job + k) = InProgress) \<longrightarrow>
        snd (snd (wait job poll_interval max_attempts)) = WaitTimeout)
   \<and> (\<forall>k. k < max_attempts \<and> (\<forall>i<k. \<not> terminal (timeline job (polled job + i)))
        \<and> terminal (timeline job (polled job + k)) \<longrightarrow>
        snd (snd (wait job poll_interval max_attempts)) = Terminal (timeline job (polled job + k))
        \<and> polled (fst (wait job poll_interval max_attempts)) = polled job + Suc k)"
proof (intro conjI impI allI)
  assume h: "timeline job (polled job) = Submitted \<and> timeline job (polled job + 1) = InProgress
      \<and> timeline job (polled job + 2) = InProgress \<and> timeline job (polled job + 3) = Completed
      \<and> 4 \<le> max_attempts"
  then have "max_attempts = Suc (Suc (Suc (Suc (max_attempts - 4))))" by arith
  then obtain m where m: "max_attempts = Suc (Suc (Suc (Suc m)))" ..
  have e: "polled job + 1 = Suc (polled job)" "polled job + 2 = Suc (Suc (polled job))"
    "polled job + 3 = Suc (Suc (Suc (polled job)))"
    "polled job + 4 = Suc (Suc (Suc (Suc (polled job))))"
    by simp_all
  from h have w: "wait job poll_interval max_attempts =
     (job\<lparr>polled := polled job + 4\<rparr>,
      0 + poll_interval + poll_interval + poll_interval, Terminal Completed)"
    unfolding wait_def m e by (intro wait_loop_four) simp_all
  show "snd (snd (wait job poll_interval max_attempts)) = Terminal Completed"
    by (simp add: w)
  show "polled (fst (wait job poll_interval max_attempts)) = polled job + 4"
    by (simp add: w)
next
  assume h: "\<forall>k<max_attempts. \<not> terminal (timeline job (polled job + k))"
  from wait_loop_no_terminal [OF this, of poll_interval 0]
  have w: "wait job poll_interval max_attempts =
     (job\<lparr>polled := polled job + max_attempts\<rparr>, 0 + max_attempts * poll_interval, WaitTimeout)"
    by (simp add: wait_def)
  show "snd (snd (wait job poll_interval max_attempts)) = WaitTimeout" by (simp add: w)
  show "snd (snd (wait job poll_interval max_attempts)) \<noteq> Terminal Completed" by (simp add: w)
  show "polled (fst (wait job poll_interval max_attempts)) = polled job + max_attempts"
    by (simp add: w)
  show "cancel_requests (fst (wait job poll_interval max_attempts)) = cancel_requests job"
    by (simp add: w)
  show "timeline (fst (wait job poll_interval max_attempts)) = timeline job" by (simp add: w)
next
  assume "\<forall>k<max_attempts. timeline job (polled job + k) = InProgress"
  then have "\<forall>k<max_attempts. \<not> terminal (timeline job (polled job + k))"
    by (simp add: terminal_def)
  from wait_loop_no_terminal [OF this, of poll_interval 0]
  show "snd (snd (wait job poll_interval max_attempts)) = WaitTimeout"
    by (simp add: wait_def)
next
  fix k
  assume h: "k < max_attempts \<and> (\<forall>i<k. \<not> terminal (timeline job (polled job + i)))
        \<and> terminal (timeline job (polled job + k))"
  then have w: "wait job poll_interval max_attempts =
     (job\<lparr>polled := polled job + Suc k\<rparr>, 0 + k * poll_interval,
      Terminal (timeline job (polled job + k)))"
    unfolding wait_def by (intro wait_loop_first_terminal) simp_all
  show "snd (snd (wait job poll_interval max_attempts)) = Terminal (timeline job (polled job + k))"
    by (simp add: w)
  show "polled (fst (wait job poll_interval max_attempts)) = polled job + Suc k"
    by (simp add: w)
qed

theorem wait_completed_or_timeout_witness:
  "timeline completing_job (polled completing_job) = Submitted
   \<and> timeline completing_job (polled completing_job + 1) = InProgress
   \<and> timeline completing_job (polled completing_job + 2) = InProgress
   \<and> timeline completing_job (polled completing_job + 3) = Completed
   \<and> (4::nat) \<le> 60
   \<and> snd (snd (wait completing_job 30 60)) = Terminal Completed
   \<and> timeline running_job (polled running_job + 59) = InProgress
   \<and> snd (snd (wait running_job 30 60)) = WaitTimeout
   \<and> cancel_requests (fst (wait running_job 30 60)) = 0
   \<and> snd (snd (wait completing_job 30 3)) = WaitTimeout
   \<and> snd (snd (wait (completing_job\<lparr>timeline := (\<lambda>k. if k < 2 then InProgress else Failed)\<rparr>)
        30 60)) = Terminal Failed"
proof -
  note t = wait_completed_or_timeout
  have early: "\<forall>k<3. \<not> terminal (timeline completing_job (polled completing_job + k))"
    by (simp add: completing_job_def terminal_def)
  have 1: "snd (snd (wait completing_job 30 60)) = Terminal Completed"
    using t [of completing_job 60 30] by (simp add: completing_job_def)
  have 2: "snd (snd (wait running_job 30 60)) = WaitTimeout
      \<and> cancel_requests (fst (wait running_job 30 60)) = 0"
    using t [of running_job 60 30] by (simp add: running_job_def terminal_def)
  have 3: "snd (snd (wait completing_job 30 3)) = WaitTimeout"
    using t [of completing_job 3 30] early by blast
  have 4: "snd (snd (wait (completing_job\<lparr>timeline := (\<lambda>k. if k < 2 then InProgress else Failed)\<rparr>)
        30 60)) = Terminal Failed"
    using t [of "completing_job\<lparr>timeline := (\<lambda>k. if k < 2 then InProgress else Failed)\<rparr>" 60 30,
        THEN conjunct2, THEN conjunct2, THEN conjunct2, THEN spec, of 2]
    by (simp add: completing_job_def terminal_def)
  from 1 2 3 4 show ?thesis by (simp add: completing_job_def running_job_def)
qed

end
